theory Spec2Isabelle
  imports Main "HOL-Library.Word"
begin

unbundle bit_operations_syntax

section \<open>Toast table creation (src/backend/catalog/toasting.c)\<close>

text \<open>
  A shallow embedding of toasting.c: the eligibility test
  \<open>RelationNeedsToastTable\<close>, the workhorse \<open>create_toast_table\<close> and the
  bootstrap entry point \<open>BootstrapToastTable\<close>.

  C integers are machine words: \<open>Oid\<close> is an unsigned 32-bit word, \<open>int32\<close> a 32-bit
  word read through \<open>sint\<close> wherever the C code compares it as a signed number, and
  \<open>int2\<close> (the type of \<open>attlen\<close>) a 16-bit word. Addition on them wraps around.
\<close>

subsection \<open>Catalog rows and relation descriptors\<close>

type_synonym Oid = "32 word"
type_synonym int32 = "32 word"
type_synonym int2 = "16 word"

text \<open>
  Modelled from the spec: the invalid (unassigned) identifier. postgres_ext.h, which
  defines \<open>InvalidOid\<close> as \<open>((Oid) 0)\<close>, is not among the sources.
\<close>

definition InvalidOid :: Oid where
  "InvalidOid = 0"

text \<open>The fields of a \<open>pg_attribute\<close> row that toasting.c reads or writes.\<close>

record FormData_pg_attribute =
  attname :: string
  atttypid :: Oid
  attlen :: int2
  atttypmod :: int32
  attndims :: int32
  attstorage :: char
  attalign :: char
  attisdropped :: bool

text \<open>The fields of a \<open>pg_class\<close> row that toasting.c reads or writes.\<close>

record FormData_pg_class =
  relname :: string
  relowner :: Oid
  reltablespace :: Oid
  reltoastrelid :: Oid
  relisshared :: bool
  relkind :: char
  relstorage :: char

text \<open>
  An open relation: its identifier, its cached \<open>pg_class\<close> row (\<open>rd_rel\<close>) and its
  tuple descriptor (\<open>rd_att\<close>). The descriptor is the list of its attributes;
  \<open>tupdesc->natts\<close> is the length of that list, dropped attributes included.
\<close>

record RelationData =
  rd_id :: Oid
  rd_rel :: FormData_pg_class
  rd_att :: "FormData_pg_attribute list"

subsection \<open>What toasting.c takes from headers and other files\<close>

text \<open>
  The constants and functions below are used by toasting.c and defined elsewhere in the
  repository, in files that are not among the sources. They are parameters of
  the model: \<open>TOAST_TUPLE_THRESHOLD\<close> (access/tuptoaster.h),
  \<open>offsetof(HeapTupleHeaderData, t_bits)\<close> (access/htup.h), \<open>type_maximum_size\<close>
  (utils/adt/format_type.c), the macros \<open>RelationIsExternal\<close> and \<open>RelationIsAo\<close>
  (utils/rel.h) and \<open>ChooseTablespaceForLimitedObject\<close> (commands/tablespace.c).
  \<open>rel_needs_long_lock\<close> (commands/tablecmds.c) is read by
  \<open>AlterTableCreateToastTable\<close>. \<open>type_of_oid\<close> stands for the \<open>pg_type\<close> lookup inside
  \<open>TupleDescInitEntry\<close>: it yields \<open>typlen\<close>, \<open>typalign\<close> and \<open>typstorage\<close> of a
  type. The record \<open>tidycat\<close> holds the values of the sixteen constants named in the
  \<open>switch\<close> of \<open>BootstrapToastTable\<close>: the \<open>case\<close> labels (toast table identifiers
  declared in catalog/toasting.h) and the \<open>..._TOAST_RELTYPE_OID\<close> constants
  (catalog/pg_type.h).

  \<open>TOAST_TUPLE_THRESHOLD\<close> is an integer and \<open>tuple_length\<close> is compared with it as a
  signed number: in the headers of PostgreSQL 8.2, from which this code descends, the
  threshold is an expression of type \<open>long\<close>. The model is sequential: the lock modes
  passed to \<open>heap_open\<close> and \<open>heap_close\<close> are left out, and only the two calls of
  \<open>UnlockRelationOid\<close> are recorded.
\<close>

record tidycat =
  PgFileSpaceEntryToastTable :: Oid
  PG_FILESPACE_ENTRY_TOAST_RELTYPE_OID :: Oid
  GpSegmentConfigToastTable :: Oid
  GP_SEGMENT_CONFIGURATION_TOAST_RELTYPE_OID :: Oid
  PgAttributeEncodingToastTable :: Oid
  PG_ATTRIBUTE_ENCODING_TOAST_RELTYPE_OID :: Oid
  PgTypeEncodingToastTable :: Oid
  PG_TYPE_ENCODING_TOAST_RELTYPE_OID :: Oid
  PgPartitionEncodingToastTable :: Oid
  PG_PARTITION_ENCODING_TOAST_RELTYPE_OID :: Oid
  PgFileSystemToastTable :: Oid
  PG_FILESYSTEM_TOAST_RELTYPE_OID :: Oid
  PgRemoteCredentialsToastTable :: Oid
  PG_REMOTE_CREDENTIALS_TOAST_RELTYPE_OID :: Oid
  PgResQueueToastTable :: Oid
  PG_RESQUEUE_TOAST_RELTYPE_OID :: Oid

record installation =
  TOAST_TUPLE_THRESHOLD :: int
  t_bits_offset :: nat
  type_maximum_size :: "Oid \<Rightarrow> int32 \<Rightarrow> int32"
  RelationIsExternal :: "RelationData \<Rightarrow> bool"
  RelationIsAo :: "RelationData \<Rightarrow> bool"
  ChooseTablespaceForLimitedObject :: "Oid \<Rightarrow> Oid"
  rel_needs_long_lock :: "Oid \<Rightarrow> bool"
  type_of_oid :: "Oid \<Rightarrow> int2 \<times> char \<times> char"
  toast_ids :: tidycat

text \<open>
  Modelled from the spec: the alignment macros of c.h and access/tupmacs.h and
  \<open>BITMAPLEN\<close> of access/htup.h are not among the sources; the spec only speaks of
  "per-attribute alignment padding" and of a "per-row header/null-bitmap overhead term".
  They are written here as PostgreSQL defines them, for a platform whose \<open>short\<close>,
  \<open>int\<close>, \<open>double\<close> and maximum alignments are 2, 4, 8 and 8:
  \<open>TYPEALIGN(ALIGNVAL, LEN) = ((LEN + (ALIGNVAL - 1)) & ~(ALIGNVAL - 1))\<close>,
  \<open>att_align\<close> chooses the alignment from \<open>attalign\<close> (\<open>'i'\<close>, \<open>'c'\<close>, \<open>'d'\<close>, else
  \<open>'s'\<close>), and \<open>BITMAPLEN(NATTS) = (NATTS + 7) / 8\<close>. The macros compute in \<open>long\<close>
  and the results are stored in \<open>int32\<close> variables; computing in 32-bit words gives the
  same stored values.
\<close>

definition TYPEALIGN :: "int32 \<Rightarrow> int32 \<Rightarrow> int32" where
  "TYPEALIGN ALIGNVAL LEN = (LEN + (ALIGNVAL - 1)) AND NOT (ALIGNVAL - 1)"

definition SHORTALIGN :: "int32 \<Rightarrow> int32" where
  "SHORTALIGN LEN = TYPEALIGN 2 LEN"

definition INTALIGN :: "int32 \<Rightarrow> int32" where
  "INTALIGN LEN = TYPEALIGN 4 LEN"

definition DOUBLEALIGN :: "int32 \<Rightarrow> int32" where
  "DOUBLEALIGN LEN = TYPEALIGN 8 LEN"

definition MAXALIGN :: "int32 \<Rightarrow> int32" where
  "MAXALIGN LEN = TYPEALIGN 8 LEN"

definition att_align :: "int32 \<Rightarrow> char \<Rightarrow> int32" where
  "att_align cur_offset al =
     (if al = CHR ''i'' then INTALIGN cur_offset
      else if al = CHR ''c'' then cur_offset
      else if al = CHR ''d'' then DOUBLEALIGN cur_offset
      else SHORTALIGN cur_offset)"

text \<open>
  \<open>natts\<close> is a count of attributes (at most \<open>MaxTupleAttributeNumber\<close>), so the \<open>int\<close>
  arithmetic of \<open>BITMAPLEN\<close> is exact and is done on natural numbers.
\<close>

definition BITMAPLEN :: "nat \<Rightarrow> nat" where
  "BITMAPLEN NATTS = (NATTS + 7) div 8"

subsection \<open>RelationNeedsToastTable\<close>

text \<open>
  The state of the \<open>for\<close> loop: \<open>data_length\<close>, \<open>maxlength_unknown\<close> and
  \<open>has_toastable_attrs\<close>.
\<close>

type_synonym needs_state = "int32 \<times> bool \<times> bool"

text \<open>One iteration of the loop body, for attribute \<open>att[i]\<close>.\<close>

definition needs_toast_step :: "installation \<Rightarrow> FormData_pg_attribute \<Rightarrow> needs_state \<Rightarrow> needs_state" where
  "needs_toast_step I a st =
     (case st of (data_length, maxlength_unknown, has_toastable_attrs) \<Rightarrow>
        if attisdropped a then st
        else
          let data_length = att_align data_length (attalign a) in
          if 0 < sint (attlen a) then
            (data_length + scast (attlen a), maxlength_unknown, has_toastable_attrs)
          else
            let maxlen = type_maximum_size I (atttypid a) (atttypmod a) in
            (if sint maxlen < 0 then data_length else data_length + maxlen,
             if sint maxlen < 0 then True else maxlength_unknown,
             if attstorage a \<noteq> CHR ''p'' then True else has_toastable_attrs))"

text \<open>The loop over \<open>att[0 .. natts - 1]\<close>.\<close>

fun needs_toast_loop :: "installation \<Rightarrow> FormData_pg_attribute list \<Rightarrow> needs_state \<Rightarrow> needs_state" where
  "needs_toast_loop I [] st = st"
| "needs_toast_loop I (a # as) st = needs_toast_loop I as (needs_toast_step I a st)"

definition RelationNeedsToastTable :: "installation \<Rightarrow> RelationData \<Rightarrow> bool" where
  "RelationNeedsToastTable I rel =
     (if RelationIsExternal I rel then False
      else if RelationIsAo I rel then False
      else
        (case needs_toast_loop I (rd_att rel) (0, False, False) of
           (data_length, maxlength_unknown, has_toastable_attrs) \<Rightarrow>
             if \<not> has_toastable_attrs then False
             else if maxlength_unknown then True
             else
               let tuple_length =
                     MAXALIGN (of_nat (t_bits_offset I + BITMAPLEN (length (rd_att rel))))
                     + MAXALIGN data_length
               in TOAST_TUPLE_THRESHOLD I < sint tuple_length))"

subsection \<open>Vocabulary for the properties of the eligibility test\<close>

text \<open>
  An attribute is variable-length when \<open>attlen > 0\<close> fails (the \<open>else\<close> branch of the
  loop). A visible (not dropped) variable-length attribute is toastable when its storage
  class is not plain, and unbounded when \<open>type_maximum_size\<close> of its type is negative.
\<close>

definition variable_length :: "FormData_pg_attribute \<Rightarrow> bool" where
  "variable_length a = (\<not> 0 < sint (attlen a))"

definition toastable_att :: "FormData_pg_attribute \<Rightarrow> bool" where
  "toastable_att a = (\<not> attisdropped a \<and> variable_length a \<and> attstorage a \<noteq> CHR ''p'')"

definition unbounded_att :: "installation \<Rightarrow> FormData_pg_attribute \<Rightarrow> bool" where
  "unbounded_att I a =
     (\<not> attisdropped a \<and> variable_length a \<and> sint (type_maximum_size I (atttypid a) (atttypmod a)) < 0)"

subsection \<open>Reading the eligibility test on unbounded integers\<close>

text \<open>
  The size computation as a specification would write it, on mathematical integers:
  rounding up to a multiple of the alignment, the largest size an attribute can take,
  the largest data length of a row (visible attributes in order, each padded to its
  alignment) and the largest tuple length (header with null bitmap, then the data, each
  rounded up to the maximum alignment). It is compared with the C computation below.
\<close>

definition align_up :: "int \<Rightarrow> int \<Rightarrow> int" where
  "align_up a n = ((n + (a - 1)) div a) * a"

definition att_alignment :: "char \<Rightarrow> int" where
  "att_alignment al =
     (if al = CHR ''i'' then 4 else if al = CHR ''c'' then 1 else if al = CHR ''d'' then 8 else 2)"

definition att_max_size :: "installation \<Rightarrow> FormData_pg_attribute \<Rightarrow> int" where
  "att_max_size I a =
     (if variable_length a then max 0 (sint (type_maximum_size I (atttypid a) (atttypmod a)))
      else sint (attlen a))"

fun max_data_length :: "installation \<Rightarrow> FormData_pg_attribute list \<Rightarrow> int \<Rightarrow> int" where
  "max_data_length I [] n = n"
| "max_data_length I (a # as) n =
     (if attisdropped a then max_data_length I as n
      else max_data_length I as (align_up (att_alignment (attalign a)) n + att_max_size I a))"

definition max_tuple_length :: "installation \<Rightarrow> RelationData \<Rightarrow> int" where
  "max_tuple_length I rel =
     align_up 8 (int (t_bits_offset I + BITMAPLEN (length (rd_att rel))))
     + align_up 8 (max_data_length I (rd_att rel) 0)"

subsection \<open>Catalog constants and collaborators of create_toast_table\<close>

text \<open>
  Modelled from the spec: the catalog headers (pg_class.h, pg_type.h, pg_am.h,
  pg_opclass.h, pg_namespace.h, pg_config_manual.h) are not among the sources. The spec
  names these constants by their role only (the identifier type, the 32-bit signed
  integer type, the variable-length binary type, the btree access method); they are given
  the values PostgreSQL's headers give them, and no property below depends on a value.
\<close>

definition RELKIND_RELATION :: char where
  "RELKIND_RELATION = CHR ''r''"

definition RELKIND_UNCATALOGED :: char where
  "RELKIND_UNCATALOGED = CHR ''u''"

definition RELKIND_TOASTVALUE :: char where
  "RELKIND_TOASTVALUE = CHR ''t''"

definition RELSTORAGE_HEAP :: char where
  "RELSTORAGE_HEAP = CHR ''h''"

definition OIDOID :: Oid where
  "OIDOID = 26"

definition INT4OID :: Oid where
  "INT4OID = 23"

definition BYTEAOID :: Oid where
  "BYTEAOID = 17"

definition PG_TOAST_NAMESPACE :: Oid where
  "PG_TOAST_NAMESPACE = 99"

definition BTREE_AM_OID :: Oid where
  "BTREE_AM_OID = 403"

definition OID_BTREE_OPS_OID :: Oid where
  "OID_BTREE_OPS_OID = 1989"

definition INT4_BTREE_OPS_OID :: Oid where
  "INT4_BTREE_OPS_OID = 1978"

definition RelationRelationId :: Oid where
  "RelationRelationId = 1259"

definition NAMEDATALEN :: nat where
  "NAMEDATALEN = 64"

datatype LOCKMODE =
  NoLock | AccessShareLock | RowShareLock | RowExclusiveLock | ShareUpdateExclusiveLock
  | ShareLock | ShareRowExclusiveLock | ExclusiveLock | AccessExclusiveLock

datatype DependencyType =
  DEPENDENCY_NORMAL | DEPENDENCY_AUTO | DEPENDENCY_INTERNAL | DEPENDENCY_PIN

record ObjectAddress =
  classId :: Oid
  objectId :: Oid
  objectSubId :: int32

text \<open>Expression and predicate trees of an index; toasting.c only stores \<open>NIL\<close>.\<close>

datatype Node = OpaqueNode nat

record IndexInfo =
  ii_NumIndexAttrs :: nat
  ii_KeyAttrNumbers :: "int2 list"
  ii_Expressions :: "Node list"
  ii_ExpressionsState :: "Node list"
  ii_Predicate :: "Node list"
  ii_PredicateState :: "Node list"
  ii_Unique :: bool
  ii_Concurrent :: bool

text \<open>
  The arguments of one call of \<open>heap_create_with_catalog\<close> and of one call of
  \<open>index_create\<close>, as toasting.c passes them, in the order of the call; the fields
  carry the parameter names of the two functions (catalog/heap.c and catalog/index.c,
  not among the sources), and arguments that toasting.c passes as \<open>NULL\<close> or as a zero
  \<open>Datum\<close> are left out. \<open>hc_comptypeOid\<close> is \<open>None\<close> for a \<open>NULL\<close> pointer and
  otherwise the identifier the pointer refers to.
\<close>

record heap_create_call =
  hc_relname :: string
  hc_relnamespace :: Oid
  hc_reltablespace :: Oid
  hc_relid :: Oid
  hc_ownerid :: Oid
  hc_tupdesc :: "FormData_pg_attribute list"
  hc_relam :: Oid
  hc_relkind :: char
  hc_relstorage :: char
  hc_shared_relation :: bool
  hc_oidislocal :: bool
  hc_bufferPoolBulkLoad :: bool
  hc_oidinhcount :: int32
  hc_allow_system_table_mods :: bool
  hc_comptypeOid :: "Oid option"

record index_create_call =
  ix_heapRelationId :: Oid
  ix_indexRelationName :: string
  ix_indexRelationId :: Oid
  ix_indexInfo :: IndexInfo
  ix_accessMethodObjectId :: Oid
  ix_tableSpaceId :: Oid
  ix_classObjectId :: "Oid list"
  ix_isprimary :: bool
  ix_isconstraint :: bool
  ix_allow_system_table_mods :: bool
  ix_skip_build :: bool
  ix_concurrent :: bool

datatype update_kind = TransactionalUpdate | InplaceUpdate

text \<open>
  The catalog state that toasting.c reads and changes: the rows of \<open>pg_class\<close> (each with
  its \<open>oid\<close> column) and the attribute rows of each relation, the identifier counter, and
  what the collaborators were asked to do: the relations created (each call with the
  relation identifier and the row type identifier it was given), the indexes created
  (each call with the index identifier), the dependency edges recorded, the locks
  released, the \<open>pg_class\<close> updates with their kind, and the command counter.
\<close>

record catalog =
  pg_class :: "(Oid \<times> FormData_pg_class) list"
  pg_attribute :: "(Oid \<times> FormData_pg_attribute list) list"
  nextOid :: Oid
  heap_created :: "(heap_create_call \<times> Oid \<times> Oid) list"
  index_created :: "(index_create_call \<times> Oid) list"
  pg_depend :: "(ObjectAddress \<times> ObjectAddress \<times> DependencyType) list"
  unlocked :: "(Oid \<times> LOCKMODE) list"
  pg_class_updates :: "(Oid \<times> update_kind) list"
  command_counter :: nat

text \<open>The two process-wide modes toasting.c reads.\<close>

record globals =
  gp_upgrade_mode :: bool
  IsBootstrapProcessingMode :: bool

text \<open>The errors toasting.c raises, and the one of a failed \<open>heap_open\<close>.\<close>

datatype error =
  ERRCODE_WRONG_OBJECT_TYPE string
  | ERRCODE_OBJECT_NOT_IN_PREREQUISITE_STATE
  | cache_lookup_failed Oid
  | does_not_require_a_toast_table string
  | relation_does_not_exist

text \<open>
  Modelled from the spec: the collaborators below are functions of the repository that
  are not among the sources. Section 6 of the spec describes the creation collaborator:
  "given a column schema (with per-column storage-class override) and an optional
  pre-assigned identifier, returns a new relation or ordered unique index identifier";
  the dependency collaborator "accepts (dependent, referenced, INTERNAL) edges"; the
  owner-table collaborator gives the catalog row "supporting both transactional update
  and in-place overwrite". Each model records the call and nothing more. A fresh
  identifier is taken from the counter and is never \<open>InvalidOid\<close>.
\<close>

definition GetNewOid :: "catalog \<Rightarrow> Oid \<times> catalog" where
  "GetNewOid c =
     (let n = (if nextOid c = InvalidOid then nextOid c + 1 else nextOid c)
      in (n, c\<lparr>nextOid := n + 1\<rparr>))"

definition assign_oid :: "Oid \<Rightarrow> catalog \<Rightarrow> Oid \<times> catalog" where
  "assign_oid requested c = (if requested \<noteq> InvalidOid then (requested, c) else GetNewOid c)"

definition heap_create_with_catalog :: "heap_create_call \<Rightarrow> catalog \<Rightarrow> Oid \<times> catalog" where
  "heap_create_with_catalog call c =
     (case assign_oid (hc_relid call) c of (relid, c1) \<Rightarrow>
        (case assign_oid (case hc_comptypeOid call of None \<Rightarrow> InvalidOid | Some t \<Rightarrow> t) c1 of
           (typid, c2) \<Rightarrow>
             (relid, c2\<lparr>heap_created := heap_created c2 @ [(call, relid, typid)]\<rparr>)))"

definition index_create :: "index_create_call \<Rightarrow> catalog \<Rightarrow> Oid \<times> catalog" where
  "index_create call c =
     (case assign_oid (ix_indexRelationId call) c of (indexoid, c1) \<Rightarrow>
        (indexoid, c1\<lparr>index_created := index_created c1 @ [(call, indexoid)]\<rparr>))"

definition CommandCounterIncrement :: "catalog \<Rightarrow> catalog" where
  "CommandCounterIncrement c = c\<lparr>command_counter := command_counter c + 1\<rparr>"

definition UnlockRelationOid :: "Oid \<Rightarrow> LOCKMODE \<Rightarrow> catalog \<Rightarrow> catalog" where
  "UnlockRelationOid relid lockmode c = c\<lparr>unlocked := unlocked c @ [(relid, lockmode)]\<rparr>"

definition recordDependencyOn :: "ObjectAddress \<Rightarrow> ObjectAddress \<Rightarrow> DependencyType \<Rightarrow> catalog \<Rightarrow> catalog" where
  "recordDependencyOn depender referenced behavior c =
     c\<lparr>pg_depend := pg_depend c @ [(depender, referenced, behavior)]\<rparr>"

text \<open>\<open>SELECT * FROM pg_class WHERE oid = :1 FOR UPDATE\<close>: the first row with that oid.\<close>

definition caql_getfirst :: "catalog \<Rightarrow> Oid \<Rightarrow> FormData_pg_class option" where
  "caql_getfirst c relOid = map_of (pg_class c) relOid"

fun replace_row :: "Oid \<Rightarrow> FormData_pg_class \<Rightarrow> (Oid \<times> FormData_pg_class) list \<Rightarrow> (Oid \<times> FormData_pg_class) list" where
  "replace_row relOid tup [] = []"
| "replace_row relOid tup ((k, r) # rows) =
     (if k = relOid then (k, tup) # rows else (k, r) # replace_row relOid tup rows)"

definition caql_update_current :: "Oid \<Rightarrow> FormData_pg_class \<Rightarrow> catalog \<Rightarrow> catalog" where
  "caql_update_current relOid tup c =
     c\<lparr>pg_class := replace_row relOid tup (pg_class c),
       pg_class_updates := pg_class_updates c @ [(relOid, TransactionalUpdate)]\<rparr>"

definition heap_inplace_update :: "Oid \<Rightarrow> FormData_pg_class \<Rightarrow> catalog \<Rightarrow> catalog" where
  "heap_inplace_update relOid tup c =
     c\<lparr>pg_class := replace_row relOid tup (pg_class c),
       pg_class_updates := pg_class_updates c @ [(relOid, InplaceUpdate)]\<rparr>"

text \<open>
  Opening a relation by identifier or by name builds its descriptor from the catalog
  rows; \<open>None\<close> when there is no such relation (the collaborator raises an error).
\<close>

definition heap_open :: "catalog \<Rightarrow> Oid \<Rightarrow> RelationData option" where
  "heap_open c relOid =
     (case map_of (pg_class c) relOid of
        None \<Rightarrow> None
      | Some row \<Rightarrow>
          Some \<lparr>rd_id = relOid, rd_rel = row,
                rd_att = (case map_of (pg_attribute c) relOid of None \<Rightarrow> [] | Some atts \<Rightarrow> atts)\<rparr>)"

definition heap_openrv :: "catalog \<Rightarrow> string \<Rightarrow> RelationData option" where
  "heap_openrv c relName =
     (case find (\<lambda>row. relname (snd row) = relName) (pg_class c) of
        None \<Rightarrow> None
      | Some row \<Rightarrow> heap_open c (fst row))"

text \<open>
  \<open>TupleDescInitEntry\<close> fills entry \<open>attributeNumber\<close> (counted from 1) of a descriptor:
  name, type, type modifier and dimensions as given, length, alignment and storage
  class as \<open>pg_type\<close> has them for the type, not dropped.
\<close>

definition blank_attribute :: FormData_pg_attribute where
  "blank_attribute =
     \<lparr>attname = [], atttypid = 0, attlen = 0, atttypmod = 0, attndims = 0,
      attstorage = CHR 0x00, attalign = CHR 0x00, attisdropped = False\<rparr>"

definition CreateTemplateTupleDesc :: "nat \<Rightarrow> FormData_pg_attribute list" where
  "CreateTemplateTupleDesc natts = replicate natts blank_attribute"

definition TupleDescInitEntry ::
  "installation \<Rightarrow> FormData_pg_attribute list \<Rightarrow> nat \<Rightarrow> string \<Rightarrow> Oid \<Rightarrow> int32 \<Rightarrow> int32
     \<Rightarrow> FormData_pg_attribute list" where
  "TupleDescInitEntry I desc attributeNumber attributeName oidtypeid typmod attdim =
     (case type_of_oid I oidtypeid of (typlen, typalign, typstorage) \<Rightarrow>
        desc[attributeNumber - 1 :=
          \<lparr>attname = attributeName, atttypid = oidtypeid, attlen = typlen, atttypmod = typmod,
           attndims = attdim, attstorage = typstorage, attalign = typalign,
           attisdropped = False\<rparr>])"

text \<open>\<open>%u\<close> of \<open>snprintf\<close>: an unsigned number in decimal.\<close>

fun string_of_nat :: "nat \<Rightarrow> string" where
  "string_of_nat n =
     (if n < 10 then [''0123456789'' ! n]
      else string_of_nat (n div 10) @ [''0123456789'' ! (n mod 10)])"

declare string_of_nat.simps [simp del]

text \<open>\<open>snprintf\<close> into a buffer of \<open>bufsize\<close> bytes keeps at most \<open>bufsize - 1\<close> characters.\<close>

definition snprintf :: "nat \<Rightarrow> string \<Rightarrow> string" where
  "snprintf bufsize str = take (bufsize - 1) str"

subsection \<open>create_toast_table\<close>

text \<open>
  The descriptor of a toast relation: three entries initialised by
  \<open>TupleDescInitEntry\<close>, then the three assignments of \<open>'p'\<close> to \<open>attstorage\<close>.
\<close>

definition toast_tupdesc :: "installation \<Rightarrow> FormData_pg_attribute list" where
  "toast_tupdesc I =
     (let tupdesc = CreateTemplateTupleDesc 3;
          tupdesc = TupleDescInitEntry I tupdesc 1 ''chunk_id'' OIDOID (- 1) 0;
          tupdesc = TupleDescInitEntry I tupdesc 2 ''chunk_seq'' INT4OID (- 1) 0;
          tupdesc = TupleDescInitEntry I tupdesc 3 ''chunk_data'' BYTEAOID (- 1) 0;
          tupdesc = tupdesc[0 := (tupdesc ! 0)\<lparr>attstorage := CHR ''p''\<rparr>];
          tupdesc = tupdesc[1 := (tupdesc ! 1)\<lparr>attstorage := CHR ''p''\<rparr>];
          tupdesc = tupdesc[2 := (tupdesc ! 2)\<lparr>attstorage := CHR ''p''\<rparr>]
      in tupdesc)"

text \<open>The \<open>IndexInfo\<close> node built for the toast index.\<close>

definition toast_indexInfo :: IndexInfo where
  "toast_indexInfo =
     \<lparr>ii_NumIndexAttrs = 2, ii_KeyAttrNumbers = [1, 2], ii_Expressions = [],
      ii_ExpressionsState = [], ii_Predicate = [], ii_PredicateState = [],
      ii_Unique = True, ii_Concurrent = False\<rparr>"

text \<open>The arguments of the call of \<open>heap_create_with_catalog\<close> in \<open>create_toast_table\<close>.\<close>

definition toast_heap_call ::
  "installation \<Rightarrow> RelationData \<Rightarrow> Oid \<Rightarrow> Oid option \<Rightarrow> heap_create_call" where
  "toast_heap_call I rel toastOid comptypeOid =
     \<lparr>hc_relname = snprintf NAMEDATALEN (''pg_toast_'' @ string_of_nat (unat (rd_id rel))),
      hc_relnamespace = PG_TOAST_NAMESPACE,
      hc_reltablespace = ChooseTablespaceForLimitedObject I (reltablespace (rd_rel rel)),
      hc_relid = toastOid,
      hc_ownerid = relowner (rd_rel rel),
      hc_tupdesc = toast_tupdesc I,
      hc_relam = InvalidOid,
      hc_relkind = RELKIND_TOASTVALUE,
      hc_relstorage = RELSTORAGE_HEAP,
      hc_shared_relation = relisshared (rd_rel rel),
      hc_oidislocal = True,
      hc_bufferPoolBulkLoad = False,
      hc_oidinhcount = 0,
      hc_allow_system_table_mods = True,
      hc_comptypeOid = comptypeOid\<rparr>"

text \<open>The arguments of the call of \<open>index_create\<close> in \<open>create_toast_table\<close>.\<close>

definition toast_index_call ::
  "installation \<Rightarrow> RelationData \<Rightarrow> Oid \<Rightarrow> Oid \<Rightarrow> index_create_call" where
  "toast_index_call I rel toast_relid toastIndexOid =
     \<lparr>ix_heapRelationId = toast_relid,
      ix_indexRelationName =
        snprintf NAMEDATALEN (''pg_toast_'' @ string_of_nat (unat (rd_id rel)) @ ''_index''),
      ix_indexRelationId = toastIndexOid,
      ix_indexInfo = toast_indexInfo,
      ix_accessMethodObjectId = BTREE_AM_OID,
      ix_tableSpaceId = ChooseTablespaceForLimitedObject I (reltablespace (rd_rel rel)),
      ix_classObjectId = [OID_BTREE_OPS_OID, INT4_BTREE_OPS_OID],
      ix_isprimary = True,
      ix_isconstraint = False,
      ix_allow_system_table_mods = True,
      ix_skip_build = False,
      ix_concurrent = False\<rparr>"

text \<open>
  \<open>create_toast_table\<close> from "Create the toast table and its index" to its end: the
  relation, the command counter, the index, the unlocking for a partition child, the
  update of the owner's \<open>pg_class\<close> row, the dependency, the command counter. The state
  returned with an error is the state at the \<open>elog\<close>.
\<close>

definition create_toast_objects ::
  "installation \<Rightarrow> globals \<Rightarrow> RelationData \<Rightarrow> Oid \<Rightarrow> Oid \<Rightarrow> Oid option \<Rightarrow> bool \<Rightarrow> catalog
     \<Rightarrow> (error + bool) \<times> catalog" where
  "create_toast_objects I G rel toastOid toastIndexOid comptypeOid is_part_child c =
     (let relOid = rd_id rel in
      (case heap_create_with_catalog (toast_heap_call I rel toastOid comptypeOid) c of
         (toast_relid, c1) \<Rightarrow>
           (let c2 = CommandCounterIncrement c1 in
            (case index_create (toast_index_call I rel toast_relid toastIndexOid) c2 of
               (toast_idxid, c3) \<Rightarrow>
                 (let c4 = (if is_part_child
                            then UnlockRelationOid toast_idxid AccessExclusiveLock
                                   (UnlockRelationOid toast_relid ShareLock c3)
                            else c3) in
                  (case caql_getfirst c4 relOid of
                     None \<Rightarrow> (Inl (cache_lookup_failed relOid), c4)
                   | Some reltup \<Rightarrow>
                       (let reltup = reltup\<lparr>reltoastrelid := toast_relid\<rparr>;
                            c5 = (if \<not> IsBootstrapProcessingMode G
                                  then caql_update_current relOid reltup c4
                                  else heap_inplace_update relOid reltup c4);
                            c6 = (if \<not> IsBootstrapProcessingMode G
                                  then recordDependencyOn
                                         \<lparr>classId = RelationRelationId, objectId = toast_relid,
                                          objectSubId = 0\<rparr>
                                         \<lparr>classId = RelationRelationId, objectId = relOid,
                                          objectSubId = 0\<rparr>
                                         DEPENDENCY_INTERNAL c5
                                  else c5)
                        in (Inr True, CommandCounterIncrement c6))))))))"

text \<open>
  \<open>create_toast_table\<close>: the three early returns and the shared-relation error, in the
  order of the source, then the creation.
\<close>

definition create_toast_table ::
  "installation \<Rightarrow> globals \<Rightarrow> RelationData \<Rightarrow> Oid \<Rightarrow> Oid \<Rightarrow> Oid option \<Rightarrow> bool \<Rightarrow> catalog
     \<Rightarrow> (error + bool) \<times> catalog" where
  "create_toast_table I G rel toastOid toastIndexOid comptypeOid is_part_child c =
     (if \<not> gp_upgrade_mode G \<and> reltoastrelid (rd_rel rel) \<noteq> InvalidOid then (Inr False, c)
      else if \<not> RelationNeedsToastTable I rel then (Inr False, c)
      else if gp_upgrade_mode G \<and> toastOid = InvalidOid then (Inr False, c)
      else if relisshared (rd_rel rel) \<and> \<not> IsBootstrapProcessingMode G \<and> \<not> gp_upgrade_mode G
        then (Inl ERRCODE_OBJECT_NOT_IN_PREREQUISITE_STATE, c)
      else create_toast_objects I G rel toastOid toastIndexOid comptypeOid is_part_child c)"

subsection \<open>The entry points\<close>

definition AlterTableCreateToastTable ::
  "installation \<Rightarrow> globals \<Rightarrow> Oid \<Rightarrow> catalog \<Rightarrow> (error + unit) \<times> catalog" where
  "AlterTableCreateToastTable I G relOid c =
     (let is_part_child = \<not> rel_needs_long_lock I relOid in
      case heap_open c relOid of
        None \<Rightarrow> (Inl relation_does_not_exist, c)
      | Some rel \<Rightarrow>
          (case create_toast_table I G rel InvalidOid InvalidOid None is_part_child c of
             (Inl e, c') \<Rightarrow> (Inl e, c')
           | (Inr b, c') \<Rightarrow> (Inr (), c')))"

definition AlterTableCreateToastTableWithOid ::
  "installation \<Rightarrow> globals \<Rightarrow> Oid \<Rightarrow> Oid \<Rightarrow> Oid \<Rightarrow> Oid option \<Rightarrow> bool \<Rightarrow> catalog
     \<Rightarrow> (error + unit) \<times> catalog" where
  "AlterTableCreateToastTableWithOid I G relOid newOid newIndexOid comptypeOid is_part_child c =
     (case heap_open c relOid of
        None \<Rightarrow> (Inl relation_does_not_exist, c)
      | Some rel \<Rightarrow>
          (case create_toast_table I G rel newOid newIndexOid comptypeOid is_part_child c of
             (Inl e, c') \<Rightarrow> (Inl e, c')
           | (Inr b, c') \<Rightarrow> (Inr (), c')))"

text \<open>The \<open>switch (toastOid)\<close> of \<open>BootstrapToastTable\<close>, case by case; \<open>default\<close> last.\<close>

definition bootstrap_typid :: "tidycat \<Rightarrow> Oid \<Rightarrow> Oid" where
  "bootstrap_typid T toastOid =
     (if toastOid = PgFileSpaceEntryToastTable T then PG_FILESPACE_ENTRY_TOAST_RELTYPE_OID T
      else if toastOid = GpSegmentConfigToastTable T then GP_SEGMENT_CONFIGURATION_TOAST_RELTYPE_OID T
      else if toastOid = PgAttributeEncodingToastTable T then PG_ATTRIBUTE_ENCODING_TOAST_RELTYPE_OID T
      else if toastOid = PgTypeEncodingToastTable T then PG_TYPE_ENCODING_TOAST_RELTYPE_OID T
      else if toastOid = PgPartitionEncodingToastTable T then PG_PARTITION_ENCODING_TOAST_RELTYPE_OID T
      else if toastOid = PgFileSystemToastTable T then PG_FILESYSTEM_TOAST_RELTYPE_OID T
      else if toastOid = PgRemoteCredentialsToastTable T then PG_REMOTE_CREDENTIALS_TOAST_RELTYPE_OID T
      else if toastOid = PgResQueueToastTable T then PG_RESQUEUE_TOAST_RELTYPE_OID T
      else InvalidOid)"

definition BootstrapToastTable ::
  "installation \<Rightarrow> globals \<Rightarrow> string \<Rightarrow> Oid \<Rightarrow> Oid \<Rightarrow> catalog \<Rightarrow> (error + unit) \<times> catalog" where
  "BootstrapToastTable I G relName toastOid toastIndexOid c =
     (case heap_openrv c relName of
        None \<Rightarrow> (Inl relation_does_not_exist, c)
      | Some rel \<Rightarrow>
          if relkind (rd_rel rel) \<noteq> RELKIND_RELATION \<and> relkind (rd_rel rel) \<noteq> RELKIND_UNCATALOGED
          then (Inl (ERRCODE_WRONG_OBJECT_TYPE relName), c)
          else
            let typid = bootstrap_typid (toast_ids I) toastOid in
            (case create_toast_table I G rel toastOid toastIndexOid (Some typid) False c of
               (Inl e, c') \<Rightarrow> (Inl e, c')
             | (Inr b, c') \<Rightarrow>
                 if \<not> b then (Inl (does_not_require_a_toast_table relName), c')
                 else (Inr (), c')))"

text \<open>
  The registered entries of the \<open>switch\<close> as pairs: a \<open>case\<close> label and the row type
  identifier assigned under it. C requires the labels of one \<open>switch\<close> to be distinct.
\<close>

definition bootstrap_entries :: "tidycat \<Rightarrow> (Oid \<times> Oid) list" where
  "bootstrap_entries T =
     [(PgFileSpaceEntryToastTable T, PG_FILESPACE_ENTRY_TOAST_RELTYPE_OID T),
      (GpSegmentConfigToastTable T, GP_SEGMENT_CONFIGURATION_TOAST_RELTYPE_OID T),
      (PgAttributeEncodingToastTable T, PG_ATTRIBUTE_ENCODING_TOAST_RELTYPE_OID T),
      (PgTypeEncodingToastTable T, PG_TYPE_ENCODING_TOAST_RELTYPE_OID T),
      (PgPartitionEncodingToastTable T, PG_PARTITION_ENCODING_TOAST_RELTYPE_OID T),
      (PgFileSystemToastTable T, PG_FILESYSTEM_TOAST_RELTYPE_OID T),
      (PgRemoteCredentialsToastTable T, PG_REMOTE_CREDENTIALS_TOAST_RELTYPE_OID T),
      (PgResQueueToastTable T, PG_RESQUEUE_TOAST_RELTYPE_OID T)]"

subsection \<open>The eligibility rule in the words of the specification\<close>

text \<open>
  The total as the specification words it: alignment-padded sizes of the fixed-length
  attributes, plus the declared maxima of the non-plain variable-length attributes only,
  plus the header term. It is used to show where the source differs.
\<close>

fun claimed_data_length :: "installation \<Rightarrow> FormData_pg_attribute list \<Rightarrow> int \<Rightarrow> int" where
  "claimed_data_length I [] n = n"
| "claimed_data_length I (a # as) n =
     (if attisdropped a then claimed_data_length I as n
      else if \<not> variable_length a
        then claimed_data_length I as (align_up (att_alignment (attalign a)) n + sint (attlen a))
      else if attstorage a \<noteq> CHR ''p''
        then claimed_data_length I as
               (n + max 0 (sint (type_maximum_size I (atttypid a) (atttypmod a))))
      else claimed_data_length I as n)"

definition claimed_tuple_length :: "installation \<Rightarrow> RelationData \<Rightarrow> int" where
  "claimed_tuple_length I rel =
     align_up 8 (int (t_bits_offset I + BITMAPLEN (length (rd_att rel))))
     + align_up 8 (claimed_data_length I (rd_att rel) 0)"

subsection \<open>Example inputs\<close>

text \<open>
  Modelled from the spec: an installation for the examples. The threshold is the 2000
  bytes of section 8 of the spec; the declared maximum of a variable-length type is its
  type modifier (negative when unknown); the null bitmap starts 27 bytes into the tuple
  header; relations stored as \<open>'x'\<close> are external and those stored as \<open>'a'\<close> are
  append-only; \<open>bytea\<close> is a variable-length type with extended storage and the other
  types are four bytes long. The identifiers of the \<open>switch\<close> are example values.
\<close>

definition example_tidycat :: tidycat where
  "example_tidycat =
     \<lparr>PgFileSpaceEntryToastTable = 2902, PG_FILESPACE_ENTRY_TOAST_RELTYPE_OID = 6436,
      GpSegmentConfigToastTable = 2900, GP_SEGMENT_CONFIGURATION_TOAST_RELTYPE_OID = 6437,
      PgAttributeEncodingToastTable = 3233, PG_ATTRIBUTE_ENCODING_TOAST_RELTYPE_OID = 6438,
      PgTypeEncodingToastTable = 3222, PG_TYPE_ENCODING_TOAST_RELTYPE_OID = 6439,
      PgPartitionEncodingToastTable = 9905, PG_PARTITION_ENCODING_TOAST_RELTYPE_OID = 6440,
      PgFileSystemToastTable = 7199, PG_FILESYSTEM_TOAST_RELTYPE_OID = 6441,
      PgRemoteCredentialsToastTable = 7077, PG_REMOTE_CREDENTIALS_TOAST_RELTYPE_OID = 6442,
      PgResQueueToastTable = 9029, PG_RESQUEUE_TOAST_RELTYPE_OID = 9030\<rparr>"

definition example_installation :: installation where
  "example_installation =
     \<lparr>TOAST_TUPLE_THRESHOLD = 2000,
      t_bits_offset = 27,
      type_maximum_size = (\<lambda>typid typmod. typmod),
      RelationIsExternal = (\<lambda>rel. relstorage (rd_rel rel) = CHR ''x''),
      RelationIsAo = (\<lambda>rel. relstorage (rd_rel rel) = CHR ''a''),
      ChooseTablespaceForLimitedObject = (\<lambda>tablespaceOid. tablespaceOid),
      rel_needs_long_lock = (\<lambda>relOid. True),
      type_of_oid = (\<lambda>t. if t = BYTEAOID then (- 1, CHR ''i'', CHR ''x'') else (4, CHR ''i'', CHR ''p'')),
      toast_ids = example_tidycat\<rparr>"

text \<open>
  A visible variable-length attribute with a storage class and a type modifier, a dropped
  attribute, a four-byte integer attribute, and an ordinary heap table with a given
  identifier, shared flag, toast reference and attribute list.
\<close>

definition varlena_att :: "char \<Rightarrow> int32 \<Rightarrow> FormData_pg_attribute" where
  "varlena_att storage typmod =
     \<lparr>attname = ''v'', atttypid = 1043, attlen = - 1, atttypmod = typmod, attndims = 0,
      attstorage = storage, attalign = CHR ''i'', attisdropped = False\<rparr>"

definition dropped_att :: FormData_pg_attribute where
  "dropped_att =
     \<lparr>attname = ''........pg.dropped.2........'', atttypid = 0, attlen = - 1, atttypmod = - 1,
      attndims = 0, attstorage = CHR ''x'', attalign = CHR ''i'', attisdropped = True\<rparr>"

definition int4_att :: FormData_pg_attribute where
  "int4_att =
     \<lparr>attname = ''i'', atttypid = INT4OID, attlen = 4, atttypmod = - 1, attndims = 0,
      attstorage = CHR ''p'', attalign = CHR ''i'', attisdropped = False\<rparr>"

definition example_class :: "bool \<Rightarrow> Oid \<Rightarrow> FormData_pg_class" where
  "example_class shared toastrelid =
     \<lparr>relname = ''t'', relowner = 10, reltablespace = 0, reltoastrelid = toastrelid,
      relisshared = shared, relkind = RELKIND_RELATION, relstorage = RELSTORAGE_HEAP\<rparr>"

definition example_rel :: "bool \<Rightarrow> Oid \<Rightarrow> FormData_pg_attribute list \<Rightarrow> RelationData" where
  "example_rel shared toastrelid atts =
     \<lparr>rd_id = 16384, rd_rel = example_class shared toastrelid, rd_att = atts\<rparr>"

text \<open>A catalog holding that table, with nothing created yet.\<close>

definition example_catalog :: "bool \<Rightarrow> Oid \<Rightarrow> FormData_pg_attribute list \<Rightarrow> catalog" where
  "example_catalog shared toastrelid atts =
     \<lparr>pg_class = [(16384, example_class shared toastrelid)],
      pg_attribute = [(16384, atts)],
      nextOid = 16385,
      heap_created = [], index_created = [], pg_depend = [], unlocked = [],
      pg_class_updates = [], command_counter = 0\<rparr>"

definition normal_mode :: globals where
  "normal_mode = \<lparr>gp_upgrade_mode = False, IsBootstrapProcessingMode = False\<rparr>"

definition bootstrap_mode :: globals where
  "bootstrap_mode = \<lparr>gp_upgrade_mode = False, IsBootstrapProcessingMode = True\<rparr>"

definition upgrade_mode :: globals where
  "upgrade_mode = \<lparr>gp_upgrade_mode = True, IsBootstrapProcessingMode = False\<rparr>"

section \<open>Properties of the eligibility test\<close>

subsection \<open>The loop\<close>

lemma needs_toast_loop_append:
  "needs_toast_loop I (xs @ ys) st = needs_toast_loop I ys (needs_toast_loop I xs st)"
  by (induction xs arbitrary: st) simp_all

lemma needs_toast_loop_has_toastable:
  "snd (snd (needs_toast_loop I as (d, u, h))) = (h \<or> (\<exists>a\<in>set as. toastable_att a))"
  by (induction as arbitrary: d u h)
     (auto simp: needs_toast_step_def toastable_att_def variable_length_def Let_def)

lemma needs_toast_loop_unknown:
  "fst (snd (needs_toast_loop I as (d, u, h))) = (u \<or> (\<exists>a\<in>set as. unbounded_att I a))"
  by (induction as arbitrary: d u h)
     (auto simp: needs_toast_step_def unbounded_att_def variable_length_def Let_def)

lemma needs_toast_loop_filter:
  "needs_toast_loop I (filter (\<lambda>a. \<not> attisdropped a) as) st = needs_toast_loop I as st"
  by (induction as arbitrary: st) (auto simp: needs_toast_step_def split: prod.splits)

lemma RelationNeedsToastTable_unfold:
  "RelationNeedsToastTable I rel =
     (\<not> RelationIsExternal I rel \<and> \<not> RelationIsAo I rel \<and>
      (\<exists>a\<in>set (rd_att rel). toastable_att a) \<and>
      ((\<exists>a\<in>set (rd_att rel). unbounded_att I a) \<or>
       TOAST_TUPLE_THRESHOLD I
         < sint (MAXALIGN (of_nat (t_bits_offset I + BITMAPLEN (length (rd_att rel))))
                 + MAXALIGN (fst (needs_toast_loop I (rd_att rel) (0, False, False))))))"
proof -
  obtain d u h where st: "needs_toast_loop I (rd_att rel) (0, False, False) = (d, u, h)"
    by (cases "needs_toast_loop I (rd_att rel) (0, False, False)") auto
  have h: "h = (\<exists>a\<in>set (rd_att rel). toastable_att a)"
    using needs_toast_loop_has_toastable [of I "rd_att rel" 0 False False] st by simp
  have u: "u = (\<exists>a\<in>set (rd_att rel). unbounded_att I a)"
    using needs_toast_loop_unknown [of I "rd_att rel" 0 False False] st by simp
  show ?thesis
    unfolding RelationNeedsToastTable_def st
    by (auto simp: h u Let_def)
qed

subsection \<open>Alignment on words and on integers\<close>

lemma and_not_mask_word: "(w::int32) AND NOT (mask k) = w - take_bit k w"
proof -
  have "w - (w AND mask k) = w AND NOT (w AND mask k)"
    by (rule disjunctive_diff) (simp add: bit_and_iff)
  also have "\<dots> = w AND NOT (mask k)"
    by (simp add: bit_eq_iff bit_simps) blast
  finally show ?thesis
    by (simp add: take_bit_eq_mask)
qed

lemma take_bit_word_of_int:
  assumes "k \<le> 32"
  shows "take_bit k (word_of_int m :: int32) = word_of_int (m mod 2 ^ k)"
proof -
  have "uint (take_bit k (word_of_int m :: int32)) = take_bit k (take_bit 32 m)"
    by (simp add: unsigned_take_bit_eq uint_word_of_int_eq)
  also have "\<dots> = take_bit k m"
    using assms by (simp add: min_def)
  also have "\<dots> = take_bit 32 (take_bit k m)"
    using assms by (simp add: min_def)
  also have "\<dots> = uint (word_of_int (m mod 2 ^ k) :: int32)"
    by (simp add: uint_word_of_int_eq take_bit_eq_mod)
  finally show ?thesis
    by (simp add: word_uint_eq_iff)
qed

lemma TYPEALIGN_pow2:
  assumes "k \<le> 32"
  shows "TYPEALIGN (2 ^ k) (word_of_int n) = word_of_int (align_up (2 ^ k) n)"
proof -
  let ?m = "n + (2 ^ k - 1)"
  have "TYPEALIGN (2 ^ k) (word_of_int n) = (word_of_int ?m :: int32) AND NOT (mask k)"
    by (simp add: TYPEALIGN_def mask_eq_exp_minus_1)
  also have "\<dots> = word_of_int ?m - word_of_int (?m mod 2 ^ k)"
    using assms by (simp only: and_not_mask_word take_bit_word_of_int)
  also have "\<dots> = word_of_int (?m - ?m mod 2 ^ k)"
    by simp
  also have "?m - ?m mod 2 ^ k = align_up (2 ^ k) n"
    by (simp add: align_up_def minus_mod_eq_div_mult)
  finally show ?thesis .
qed

lemma att_align_word_of_int:
  "att_align (word_of_int n) al = word_of_int (align_up (att_alignment al) n)"
  using TYPEALIGN_pow2 [of 1 n] TYPEALIGN_pow2 [of 2 n] TYPEALIGN_pow2 [of 3 n]
  by (simp add: att_align_def att_alignment_def INTALIGN_def DOUBLEALIGN_def SHORTALIGN_def
      align_up_def)

lemma MAXALIGN_word_of_int: "MAXALIGN (word_of_int n) = word_of_int (align_up 8 n)"
  using TYPEALIGN_pow2 [of 3 n] by (simp add: MAXALIGN_def)

lemma align_up_ge: "0 < a \<Longrightarrow> n \<le> align_up a n"
proof -
  assume a: "0 < a"
  have "align_up a n = (n + (a - 1)) - (n + (a - 1)) mod a"
    by (simp add: align_up_def minus_mod_eq_div_mult)
  moreover have "(n + (a - 1)) mod a \<le> a - 1"
    using a pos_mod_bound [of a "n + (a - 1)"] by simp
  ultimately show ?thesis by simp
qed

lemma att_alignment_pos: "0 < att_alignment al"
  by (simp add: att_alignment_def)

lemma att_max_size_nonneg: "0 \<le> att_max_size I a"
  by (simp add: att_max_size_def variable_length_def)

lemma max_data_length_ge: "n \<le> max_data_length I as n"
proof (induction as arbitrary: n)
  case Nil
  show ?case by simp
next
  case (Cons a as)
  have "n \<le> align_up (att_alignment (attalign a)) n + att_max_size I a"
    using align_up_ge [OF att_alignment_pos, of n "attalign a"] att_max_size_nonneg [of I a]
    by linarith
  also have "\<dots> \<le> max_data_length I as \<dots>"
    by (rule Cons.IH)
  finally show ?case
    using Cons.IH [of n] by simp
qed

lemma max_tuple_length_nonneg: "0 \<le> max_tuple_length I rel"
proof -
  have "0 \<le> max_data_length I (rd_att rel) 0"
    by (rule max_data_length_ge)
  then have "0 \<le> align_up 8 (max_data_length I (rd_att rel) 0)"
    using align_up_ge [of 8 "max_data_length I (rd_att rel) 0"] by linarith
  moreover have "0 \<le> align_up 8 (int (t_bits_offset I + BITMAPLEN (length (rd_att rel))))"
    using align_up_ge [of 8 "int (t_bits_offset I + BITMAPLEN (length (rd_att rel)))"] by linarith
  ultimately show ?thesis
    by (simp add: max_tuple_length_def)
qed

subsection \<open>The C accumulation computes the integer total modulo \<open>2 ^ 32\<close>\<close>

lemma needs_toast_step_data_length:
  "fst (needs_toast_step I a (word_of_int n, u, h)) =
     word_of_int (if attisdropped a then n
                  else align_up (att_alignment (attalign a)) n + att_max_size I a)"
proof (cases "attisdropped a")
  case True
  then show ?thesis by (simp add: needs_toast_step_def)
next
  case nd: False
  let ?m = "type_maximum_size I (atttypid a) (atttypmod a)"
  show ?thesis
  proof (cases "0 < sint (attlen a)")
    case True
    then have "att_max_size I a = sint (attlen a)"
      by (simp add: att_max_size_def variable_length_def)
    with True nd show ?thesis
      by (simp add: needs_toast_step_def att_align_word_of_int)
  next
    case fixed: False
    show ?thesis
    proof (cases "sint ?m < 0")
      case True
      then have "att_max_size I a = 0"
        using fixed by (simp add: att_max_size_def variable_length_def)
      with True nd fixed show ?thesis
        by (simp add: needs_toast_step_def att_align_word_of_int Let_def)
    next
      case False
      then have "att_max_size I a = sint ?m"
        using fixed by (simp add: att_max_size_def variable_length_def)
      with False nd fixed show ?thesis
        by (simp add: needs_toast_step_def att_align_word_of_int Let_def)
    qed
  qed
qed

lemma needs_toast_loop_data_length:
  "fst (needs_toast_loop I as (word_of_int n, u, h)) = word_of_int (max_data_length I as n)"
proof (induction as arbitrary: n u h)
  case Nil
  show ?case by simp
next
  case (Cons a as)
  obtain d u' h' where st: "needs_toast_step I a (word_of_int n, u, h) = (d, u', h')"
    by (cases "needs_toast_step I a (word_of_int n, u, h)") auto
  from needs_toast_step_data_length [of I a n u h] st
  have d: "d = word_of_int (if attisdropped a then n
                  else align_up (att_alignment (attalign a)) n + att_max_size I a)"
    by simp
  show ?case
    unfolding needs_toast_loop.simps st d
    by (simp only: Cons.IH max_data_length.simps if_distrib [of "max_data_length I as"] split: if_splits)
qed

lemma tuple_length_word_of_int:
  "MAXALIGN (of_nat (t_bits_offset I + BITMAPLEN (length (rd_att rel))))
     + MAXALIGN (fst (needs_toast_loop I (rd_att rel) (0, False, False)))
   = word_of_int (max_tuple_length I rel)"
proof -
  have "fst (needs_toast_loop I (rd_att rel) (word_of_int 0, False, False))
          = word_of_int (max_data_length I (rd_att rel) 0)"
    by (rule needs_toast_loop_data_length)
  then have d: "fst (needs_toast_loop I (rd_att rel) (0, False, False))
          = word_of_int (max_data_length I (rd_att rel) 0)"
    by simp
  have hd: "(of_nat (t_bits_offset I + BITMAPLEN (length (rd_att rel))) :: int32)
          = word_of_int (int (t_bits_offset I + BITMAPLEN (length (rd_att rel))))"
    by simp
  show ?thesis
    unfolding d hd MAXALIGN_word_of_int max_tuple_length_def
    by simp
qed

lemma sint_word_of_int_32:
  "0 \<le> n \<Longrightarrow> n < 2 ^ 31 \<Longrightarrow> sint (word_of_int n :: int32) = n"
  by (simp add: sint_sbintrunc' signed_take_bit_int_eq_self)

lemmas example_defs =
  example_installation_def example_rel_def example_class_def varlena_att_def dropped_att_def
  int4_att_def RELKIND_RELATION_def RELSTORAGE_HEAP_def

lemmas eval_defs =
  RelationNeedsToastTable_def needs_toast_step_def att_align_def INTALIGN_def SHORTALIGN_def
  DOUBLEALIGN_def MAXALIGN_def TYPEALIGN_def BITMAPLEN_def toastable_att_def unbounded_att_def
  variable_length_def

subsection \<open>Owners with an attribute of unknown maximum size\<close>

text \<open>
  Claim C1, as amended. For an owner with at least one visible variable-length attribute
  whose maximum size is unknown, \<open>RelationNeedsToastTable\<close> returns true exactly when
  the relation is neither external nor append-only and at least one visible
  variable-length attribute has a storage class other than plain.
\<close>

theorem unbounded_needs_toast_iff:
  assumes "\<exists>a\<in>set (rd_att rel). unbounded_att I a"
  shows "RelationNeedsToastTable I rel =
           (\<not> RelationIsExternal I rel \<and> \<not> RelationIsAo I rel \<and>
            (\<exists>a\<in>set (rd_att rel). toastable_att a))"
  using assms by (simp add: RelationNeedsToastTable_unfold)

text \<open>
  The theorem at a table with an integer column and an extended-storage column of unknown
  maximum size: it needs a toast table.
\<close>

theorem unbounded_needs_toast_iff_witness:
  "(\<exists>a\<in>set (rd_att (example_rel False 0 [int4_att, varlena_att (CHR ''x'') (- 1)])).
       unbounded_att example_installation a) \<and>
   RelationNeedsToastTable example_installation
     (example_rel False 0 [int4_att, varlena_att (CHR ''x'') (- 1)])"
proof -
  have u: "\<exists>a\<in>set (rd_att (example_rel False 0 [int4_att, varlena_att (CHR ''x'') (- 1)])).
       unbounded_att example_installation a"
    by (simp add: example_defs unbounded_att_def variable_length_def)
  have "RelationNeedsToastTable example_installation
     (example_rel False 0 [int4_att, varlena_att (CHR ''x'') (- 1)])"
    unfolding unbounded_needs_toast_iff [OF u]
    by (simp add: example_defs toastable_att_def variable_length_def)
  with u show ?thesis by simp
qed

text \<open>
  Claim C1 as stated fails: a table whose only column has an unknown maximum size and
  plain storage does not need a toast table.
\<close>

theorem unbounded_plain_not_eligible:
  "unbounded_att example_installation (varlena_att (CHR ''p'') (- 1)) \<and>
   varlena_att (CHR ''p'') (- 1) \<in> set (rd_att (example_rel False 0 [varlena_att (CHR ''p'') (- 1)])) \<and>
   \<not> RelationNeedsToastTable example_installation
       (example_rel False 0 [varlena_att (CHR ''p'') (- 1)])"
  by (simp add: example_defs eval_defs)

subsection \<open>Dropped attributes\<close>

text \<open>
  Claim C9, as amended. Dropped attributes contribute nothing to the loop: two owners
  with the same visible attributes leave the loop in the same state (data length and both
  flags). They count only in \<open>natts\<close>, through the length of the null bitmap: when the
  two owners also agree on \<open>BITMAPLEN(natts)\<close> and on the tests for external and
  append-only relations, \<open>RelationNeedsToastTable\<close> returns the same result for both.
\<close>

theorem dropped_attributes_only_count:
  assumes "filter (\<lambda>a. \<not> attisdropped a) (rd_att rel') = filter (\<lambda>a. \<not> attisdropped a) (rd_att rel)"
    and "RelationIsExternal I rel' = RelationIsExternal I rel"
    and "RelationIsAo I rel' = RelationIsAo I rel"
    and "BITMAPLEN (length (rd_att rel')) = BITMAPLEN (length (rd_att rel))"
  shows "needs_toast_loop I (rd_att rel') st = needs_toast_loop I (rd_att rel) st
         \<and> RelationNeedsToastTable I rel' = RelationNeedsToastTable I rel"
proof -
  have loop: "needs_toast_loop I (rd_att rel') s = needs_toast_loop I (rd_att rel) s" for s
    using needs_toast_loop_filter [of I "rd_att rel'" s] needs_toast_loop_filter [of I "rd_att rel" s]
      assms(1)
    by simp
  have "RelationNeedsToastTable I rel' = RelationNeedsToastTable I rel"
    unfolding RelationNeedsToastTable_def loop assms(2) assms(3) assms(4) by (rule refl)
  with loop show ?thesis by simp
qed

text \<open>The theorem at a table with one visible column, with and without two dropped columns.\<close>

theorem dropped_attributes_only_count_witness:
  "RelationNeedsToastTable example_installation
     (example_rel False 0 [dropped_att, varlena_att (CHR ''x'') 3000, dropped_att])
   = RelationNeedsToastTable example_installation
     (example_rel False 0 [varlena_att (CHR ''x'') 3000])"
  using dropped_attributes_only_count
    [of "example_rel False 0 [dropped_att, varlena_att (CHR ''x'') 3000, dropped_att]"
        "example_rel False 0 [varlena_att (CHR ''x'') 3000]" example_installation "(0, False, False)"]
  by (simp add: example_defs BITMAPLEN_def)

text \<open>
  Claim C9 as stated fails: forty dropped attributes lengthen the null bitmap from one
  byte to six, the aligned header grows from 32 to 40 bytes, and a table whose tuple
  length was exactly the threshold now exceeds it.
\<close>

theorem dropped_attributes_change_result:
  "attisdropped dropped_att \<and>
   \<not> RelationNeedsToastTable example_installation
       (example_rel False 0 [varlena_att (CHR ''x'') 1968]) \<and>
   RelationNeedsToastTable example_installation
       (example_rel False 0 (varlena_att (CHR ''x'') 1968 # replicate 40 dropped_att))"
proof -
  have loop: "needs_toast_loop I (replicate n dropped_att) st = st" for I n st
    by (induction n) (simp_all add: needs_toast_step_def dropped_att_def split: prod.splits)
  show ?thesis
    by (simp add: example_defs eval_defs loop [unfolded dropped_att_def])
qed

subsection \<open>Owners whose attributes all have a known maximum size\<close>

text \<open>
  Claim C4, as amended. For an owner that is neither external nor append-only, with at
  least one toastable attribute and no visible variable-length attribute of unknown
  maximum size, whose largest tuple length fits a signed 32-bit integer,
  \<open>RelationNeedsToastTable\<close> returns true exactly when the largest tuple length exceeds
  \<open>TOAST_TUPLE_THRESHOLD\<close>. The largest tuple length is the header with the null bitmap
  of all \<open>natts\<close> attributes, rounded up to the maximum alignment, plus the data length
  rounded up likewise; the data length runs over the visible attributes in order, pads
  to the alignment of each and adds its fixed size or, for every variable-length
  attribute whatever its storage class, its declared maximum. With a threshold of 2000,
  non-plain maxima of 100 and 3000 need a toast table and maxima of 50 and 100 do not.
\<close>

theorem bounded_needs_toast_iff:
  assumes "\<not> RelationIsExternal I rel" and "\<not> RelationIsAo I rel"
    and "\<exists>a\<in>set (rd_att rel). toastable_att a"
    and "\<not> (\<exists>a\<in>set (rd_att rel). unbounded_att I a)"
    and "max_tuple_length I rel < 2 ^ 31"
  shows "RelationNeedsToastTable I rel = (TOAST_TUPLE_THRESHOLD I < max_tuple_length I rel)
    \<and> RelationNeedsToastTable example_installation
        (example_rel False 0 [varlena_att (CHR ''x'') 100, varlena_att (CHR ''x'') 3000])
    \<and> \<not> RelationNeedsToastTable example_installation
        (example_rel False 0 [varlena_att (CHR ''x'') 50, varlena_att (CHR ''x'') 100])"
proof -
  have "sint (word_of_int (max_tuple_length I rel) :: int32) = max_tuple_length I rel"
    using max_tuple_length_nonneg [of I rel] assms(5) by (rule sint_word_of_int_32)
  then have "RelationNeedsToastTable I rel = (TOAST_TUPLE_THRESHOLD I < max_tuple_length I rel)"
    unfolding RelationNeedsToastTable_unfold tuple_length_word_of_int
    using assms(1-4) by simp
  moreover have "RelationNeedsToastTable example_installation
        (example_rel False 0 [varlena_att (CHR ''x'') 100, varlena_att (CHR ''x'') 3000])"
    by (simp add: example_defs eval_defs)
  moreover have "\<not> RelationNeedsToastTable example_installation
        (example_rel False 0 [varlena_att (CHR ''x'') 50, varlena_att (CHR ''x'') 100])"
    by (simp add: example_defs eval_defs)
  ultimately show ?thesis by simp
qed

lemmas spec_defs =
  max_tuple_length_def att_max_size_def att_alignment_def align_up_def BITMAPLEN_def
  variable_length_def toastable_att_def unbounded_att_def

text \<open>
  The theorem at the two tables of the claim: their largest tuple lengths are 3136 and
  184 bytes.
\<close>

theorem bounded_needs_toast_iff_witness:
  "RelationNeedsToastTable example_installation
     (example_rel False 0 [varlena_att (CHR ''x'') 100, varlena_att (CHR ''x'') 3000]) \<and>
   max_tuple_length example_installation
     (example_rel False 0 [varlena_att (CHR ''x'') 100, varlena_att (CHR ''x'') 3000]) = 3136 \<and>
   \<not> RelationNeedsToastTable example_installation
     (example_rel False 0 [varlena_att (CHR ''x'') 50, varlena_att (CHR ''x'') 100]) \<and>
   max_tuple_length example_installation
     (example_rel False 0 [varlena_att (CHR ''x'') 50, varlena_att (CHR ''x'') 100]) = 184"
proof -
  let ?I = example_installation
  let ?big = "example_rel False 0 [varlena_att (CHR ''x'') 100, varlena_att (CHR ''x'') 3000]"
  let ?small = "example_rel False 0 [varlena_att (CHR ''x'') 50, varlena_att (CHR ''x'') 100]"
  have big: "max_tuple_length ?I ?big = 3136"
    by (simp add: example_defs spec_defs)
  have small: "max_tuple_length ?I ?small = 184"
    by (simp add: example_defs spec_defs)
  have "RelationNeedsToastTable ?I ?big = (TOAST_TUPLE_THRESHOLD ?I < max_tuple_length ?I ?big)"
    by (rule bounded_needs_toast_iff [THEN conjunct1])
       (simp_all add: big, simp_all add: example_defs spec_defs)
  moreover
  have "RelationNeedsToastTable ?I ?small = (TOAST_TUPLE_THRESHOLD ?I < max_tuple_length ?I ?small)"
    by (rule bounded_needs_toast_iff [THEN conjunct1])
       (simp_all add: small, simp_all add: example_defs spec_defs)
  ultimately show ?thesis
    unfolding big small by (simp add: example_installation_def)
qed

text \<open>
  Claim C4 as stated fails: the source adds the declared maximum of a plain
  variable-length attribute too. A plain column of at most 3000 bytes beside an extended
  column of at most 100 bytes needs a toast table, while the total of the claim, which
  leaves the plain column out, stays below the threshold.
\<close>

theorem plain_maxima_are_counted:
  "(\<exists>a\<in>set (rd_att (example_rel False 0 [varlena_att (CHR ''p'') 3000, varlena_att (CHR ''x'') 100])).
      toastable_att a) \<and>
   \<not> (\<exists>a\<in>set (rd_att (example_rel False 0 [varlena_att (CHR ''p'') 3000, varlena_att (CHR ''x'') 100])).
      unbounded_att example_installation a) \<and>
   RelationNeedsToastTable example_installation
     (example_rel False 0 [varlena_att (CHR ''p'') 3000, varlena_att (CHR ''x'') 100]) \<and>
   \<not> TOAST_TUPLE_THRESHOLD example_installation
       < claimed_tuple_length example_installation
           (example_rel False 0 [varlena_att (CHR ''p'') 3000, varlena_att (CHR ''x'') 100])"
  by (simp add: example_defs eval_defs claimed_tuple_length_def align_up_def)

section \<open>Properties of create_toast_table\<close>

subsection \<open>The collaborators\<close>

lemma GetNewOid_valid: "fst (GetNewOid c) \<noteq> InvalidOid"
  by (simp add: GetNewOid_def InvalidOid_def Let_def)

lemma GetNewOid_frame:
  "pg_class (snd (GetNewOid c)) = pg_class c"
  "pg_attribute (snd (GetNewOid c)) = pg_attribute c"
  "heap_created (snd (GetNewOid c)) = heap_created c"
  "index_created (snd (GetNewOid c)) = index_created c"
  "pg_depend (snd (GetNewOid c)) = pg_depend c"
  by (simp_all add: GetNewOid_def Let_def)

lemma assign_oid_valid: "fst (assign_oid requested c) \<noteq> InvalidOid"
  by (simp add: assign_oid_def GetNewOid_valid)

lemma assign_oid_requested: "requested \<noteq> InvalidOid \<Longrightarrow> assign_oid requested c = (requested, c)"
  by (simp add: assign_oid_def)

lemma assign_oid_frame:
  "pg_class (snd (assign_oid requested c)) = pg_class c"
  "pg_attribute (snd (assign_oid requested c)) = pg_attribute c"
  "heap_created (snd (assign_oid requested c)) = heap_created c"
  "index_created (snd (assign_oid requested c)) = index_created c"
  "pg_depend (snd (assign_oid requested c)) = pg_depend c"
  by (simp_all add: assign_oid_def GetNewOid_frame)

lemma heap_create_with_catalog_relid:
  "fst (heap_create_with_catalog call c) = fst (assign_oid (hc_relid call) c)"
  by (simp add: heap_create_with_catalog_def split: prod.splits)

lemma heap_create_with_catalog_valid: "fst (heap_create_with_catalog call c) \<noteq> InvalidOid"
  by (simp add: heap_create_with_catalog_relid assign_oid_valid)

lemma heap_create_with_catalog_requested:
  "hc_relid call \<noteq> InvalidOid \<Longrightarrow> fst (heap_create_with_catalog call c) = hc_relid call"
  by (simp add: heap_create_with_catalog_relid assign_oid_requested)

lemma heap_create_with_catalog_created:
  "\<exists>typid. heap_created (snd (heap_create_with_catalog call c))
      = heap_created c @ [(call, fst (heap_create_with_catalog call c), typid)]
    \<and> typid \<noteq> InvalidOid
    \<and> (\<forall>t. hc_comptypeOid call = Some t \<and> t \<noteq> InvalidOid \<longrightarrow> typid = t)"
proof -
  obtain relid c1 where a1: "assign_oid (hc_relid call) c = (relid, c1)"
    by (cases "assign_oid (hc_relid call) c") auto
  let ?t = "case hc_comptypeOid call of None \<Rightarrow> InvalidOid | Some t \<Rightarrow> t"
  obtain typid c2 where a2: "assign_oid ?t c1 = (typid, c2)"
    by (cases "assign_oid ?t c1") auto
  have h1: "heap_created c1 = heap_created c"
    using assign_oid_frame(3) [of "hc_relid call" c] a1 by simp
  have h2: "heap_created c2 = heap_created c1"
    using assign_oid_frame(3) [of ?t c1] a2 by simp
  have v: "typid \<noteq> InvalidOid"
    using assign_oid_valid [of ?t c1] a2 by simp
  have r: "hc_comptypeOid call = Some t \<and> t \<noteq> InvalidOid \<longrightarrow> typid = t" for t
    using assign_oid_requested [of ?t c1] a2 by auto
  show ?thesis
    using v r by (simp add: heap_create_with_catalog_def a1 a2 h1 h2)
qed

lemma heap_create_with_catalog_frame:
  "pg_class (snd (heap_create_with_catalog call c)) = pg_class c"
  "pg_attribute (snd (heap_create_with_catalog call c)) = pg_attribute c"
  "index_created (snd (heap_create_with_catalog call c)) = index_created c"
  "pg_depend (snd (heap_create_with_catalog call c)) = pg_depend c"
proof -
  obtain relid c1 where a1: "assign_oid (hc_relid call) c = (relid, c1)"
    by (cases "assign_oid (hc_relid call) c") auto
  let ?t = "case hc_comptypeOid call of None \<Rightarrow> InvalidOid | Some t \<Rightarrow> t"
  obtain typid c2 where a2: "assign_oid ?t c1 = (typid, c2)"
    by (cases "assign_oid ?t c1") auto
  have f1: "pg_class c1 = pg_class c" "pg_attribute c1 = pg_attribute c"
    "index_created c1 = index_created c" "pg_depend c1 = pg_depend c"
    using assign_oid_frame [of "hc_relid call" c] a1 by simp_all
  have f2: "pg_class c2 = pg_class c1" "pg_attribute c2 = pg_attribute c1"
    "index_created c2 = index_created c1" "pg_depend c2 = pg_depend c1"
    using assign_oid_frame [of ?t c1] a2 by simp_all
  show "pg_class (snd (heap_create_with_catalog call c)) = pg_class c"
    "pg_attribute (snd (heap_create_with_catalog call c)) = pg_attribute c"
    "index_created (snd (heap_create_with_catalog call c)) = index_created c"
    "pg_depend (snd (heap_create_with_catalog call c)) = pg_depend c"
    by (simp_all add: heap_create_with_catalog_def a1 a2 f1 f2)
qed

lemma index_create_unfold:
  "index_create call c =
     (fst (assign_oid (ix_indexRelationId call) c),
      (snd (assign_oid (ix_indexRelationId call) c))
        \<lparr>index_created := index_created (snd (assign_oid (ix_indexRelationId call) c))
           @ [(call, fst (assign_oid (ix_indexRelationId call) c))]\<rparr>)"
  by (simp add: index_create_def split: prod.splits)

lemma index_create_valid: "fst (index_create call c) \<noteq> InvalidOid"
  by (simp add: index_create_unfold assign_oid_valid)

lemma index_create_requested:
  "ix_indexRelationId call \<noteq> InvalidOid \<Longrightarrow> fst (index_create call c) = ix_indexRelationId call"
  by (simp add: index_create_unfold assign_oid_requested)

lemma index_create_created:
  "index_created (snd (index_create call c))
     = index_created c @ [(call, fst (index_create call c))]"
  by (simp add: index_create_unfold assign_oid_frame)

lemma index_create_frame:
  "pg_class (snd (index_create call c)) = pg_class c"
  "pg_attribute (snd (index_create call c)) = pg_attribute c"
  "heap_created (snd (index_create call c)) = heap_created c"
  "pg_depend (snd (index_create call c)) = pg_depend c"
  by (simp_all add: index_create_unfold assign_oid_frame)

lemma CommandCounterIncrement_frame:
  "pg_class (CommandCounterIncrement c) = pg_class c"
  "pg_attribute (CommandCounterIncrement c) = pg_attribute c"
  "heap_created (CommandCounterIncrement c) = heap_created c"
  "index_created (CommandCounterIncrement c) = index_created c"
  "pg_depend (CommandCounterIncrement c) = pg_depend c"
  by (simp_all add: CommandCounterIncrement_def)

lemma UnlockRelationOid_frame:
  "pg_class (UnlockRelationOid relid lockmode c) = pg_class c"
  "pg_attribute (UnlockRelationOid relid lockmode c) = pg_attribute c"
  "heap_created (UnlockRelationOid relid lockmode c) = heap_created c"
  "index_created (UnlockRelationOid relid lockmode c) = index_created c"
  "pg_depend (UnlockRelationOid relid lockmode c) = pg_depend c"
  by (simp_all add: UnlockRelationOid_def)

lemma map_of_replace_row:
  "map_of rows relOid = Some r \<Longrightarrow> map_of (replace_row relOid tup rows) relOid = Some tup"
  by (induction rows) (auto split: if_splits)

subsection \<open>What the creation leaves in the catalog state\<close>

lemmas collaborator_frame =
  heap_create_with_catalog_frame index_create_frame CommandCounterIncrement_frame
  UnlockRelationOid_frame

lemma create_toast_objects_effect:
  assumes "create_toast_objects I G rel toastOid toastIndexOid comptypeOid is_part_child c = (res, c')"
  shows "\<exists>toast_relid typid toast_idxid.
           toast_relid \<noteq> InvalidOid \<and> (toastOid \<noteq> InvalidOid \<longrightarrow> toast_relid = toastOid) \<and>
           typid \<noteq> InvalidOid \<and>
           (\<forall>t. comptypeOid = Some t \<and> t \<noteq> InvalidOid \<longrightarrow> typid = t) \<and>
           toast_idxid \<noteq> InvalidOid \<and>
           (toastIndexOid \<noteq> InvalidOid \<longrightarrow> toast_idxid = toastIndexOid) \<and>
           heap_created c' = heap_created c
              @ [(toast_heap_call I rel toastOid comptypeOid, toast_relid, typid)] \<and>
           index_created c' = index_created c
              @ [(toast_index_call I rel toast_relid toastIndexOid, toast_idxid)] \<and>
           pg_attribute c' = pg_attribute c \<and>
           (case map_of (pg_class c) (rd_id rel) of
              None \<Rightarrow> res = Inl (cache_lookup_failed (rd_id rel)) \<and>
                       pg_class c' = pg_class c \<and> pg_depend c' = pg_depend c
            | Some reltup \<Rightarrow> res = Inr True \<and>
                pg_class c' = replace_row (rd_id rel) (reltup\<lparr>reltoastrelid := toast_relid\<rparr>)
                                (pg_class c) \<and>
                pg_depend c' =
                  (if IsBootstrapProcessingMode G then pg_depend c
                   else pg_depend c @
                     [(\<lparr>classId = RelationRelationId, objectId = toast_relid, objectSubId = 0\<rparr>,
                       \<lparr>classId = RelationRelationId, objectId = rd_id rel, objectSubId = 0\<rparr>,
                       DEPENDENCY_INTERNAL)]))"
proof -
  let ?hcall = "toast_heap_call I rel toastOid comptypeOid"
  let ?hr = "heap_create_with_catalog ?hcall c"
  let ?relid = "fst ?hr"
  let ?c2 = "CommandCounterIncrement (snd ?hr)"
  let ?icall = "toast_index_call I rel ?relid toastIndexOid"
  let ?ir = "index_create ?icall ?c2"
  let ?idx = "fst ?ir"
  let ?c4 = "if is_part_child
             then UnlockRelationOid ?idx AccessExclusiveLock (UnlockRelationOid ?relid ShareLock (snd ?ir))
             else snd ?ir"
  obtain typid where ty: "heap_created (snd ?hr) = heap_created c @ [(?hcall, ?relid, typid)]"
      "typid \<noteq> InvalidOid"
      "\<forall>t. hc_comptypeOid ?hcall = Some t \<and> t \<noteq> InvalidOid \<longrightarrow> typid = t"
    using heap_create_with_catalog_created [of ?hcall c] by blast
  have relid: "?relid \<noteq> InvalidOid" "toastOid \<noteq> InvalidOid \<longrightarrow> ?relid = toastOid"
    using heap_create_with_catalog_valid [of ?hcall c]
      heap_create_with_catalog_requested [of ?hcall c]
    by (simp_all add: toast_heap_call_def)
  have idx: "?idx \<noteq> InvalidOid" "toastIndexOid \<noteq> InvalidOid \<longrightarrow> ?idx = toastIndexOid"
    using index_create_valid [of ?icall ?c2] index_create_requested [of ?icall ?c2]
    by (simp_all add: toast_index_call_def)
  have c4: "pg_class ?c4 = pg_class c" "pg_attribute ?c4 = pg_attribute c"
      "pg_depend ?c4 = pg_depend c"
      "heap_created ?c4 = heap_created c @ [(?hcall, ?relid, typid)]"
      "index_created ?c4 = index_created c @ [(?icall, ?idx)]"
    by (simp_all add: collaborator_frame index_create_created ty(1))
  have run: "create_toast_objects I G rel toastOid toastIndexOid comptypeOid is_part_child c =
      (case map_of (pg_class c) (rd_id rel) of
         None \<Rightarrow> (Inl (cache_lookup_failed (rd_id rel)), ?c4)
       | Some reltup \<Rightarrow>
           (Inr True, CommandCounterIncrement
              ((if \<not> IsBootstrapProcessingMode G
                then recordDependencyOn
                       \<lparr>classId = RelationRelationId, objectId = ?relid, objectSubId = 0\<rparr>
                       \<lparr>classId = RelationRelationId, objectId = rd_id rel, objectSubId = 0\<rparr>
                       DEPENDENCY_INTERNAL
                else (\<lambda>x. x))
               ((if \<not> IsBootstrapProcessingMode G
                 then caql_update_current (rd_id rel) (reltup\<lparr>reltoastrelid := ?relid\<rparr>)
                 else heap_inplace_update (rd_id rel) (reltup\<lparr>reltoastrelid := ?relid\<rparr>)) ?c4))))"
    unfolding create_toast_objects_def Let_def case_prod_beta caql_getfirst_def c4(1)
    by (simp split: option.splits)
  show ?thesis
  proof (cases "map_of (pg_class c) (rd_id rel)")
    case None
    with assms run have "res = Inl (cache_lookup_failed (rd_id rel))" "c' = ?c4"
      by simp_all
    with None relid idx ty(2,3) c4 show ?thesis
      by (intro exI [of _ ?relid] exI [of _ typid] exI [of _ ?idx])
         (simp add: toast_heap_call_def)
  next
    case (Some reltup)
    with assms run have res: "res = Inr True"
      and c': "c' = CommandCounterIncrement
              ((if \<not> IsBootstrapProcessingMode G
                then recordDependencyOn
                       \<lparr>classId = RelationRelationId, objectId = ?relid, objectSubId = 0\<rparr>
                       \<lparr>classId = RelationRelationId, objectId = rd_id rel, objectSubId = 0\<rparr>
                       DEPENDENCY_INTERNAL
                else (\<lambda>x. x))
               ((if \<not> IsBootstrapProcessingMode G
                 then caql_update_current (rd_id rel) (reltup\<lparr>reltoastrelid := ?relid\<rparr>)
                 else heap_inplace_update (rd_id rel) (reltup\<lparr>reltoastrelid := ?relid\<rparr>)) ?c4))"
      by simp_all
    have fields: "heap_created c' = heap_created ?c4" "index_created c' = index_created ?c4"
        "pg_attribute c' = pg_attribute ?c4"
        "pg_class c' = replace_row (rd_id rel) (reltup\<lparr>reltoastrelid := ?relid\<rparr>) (pg_class ?c4)"
        "pg_depend c' =
           (if IsBootstrapProcessingMode G then pg_depend ?c4
            else pg_depend ?c4 @
              [(\<lparr>classId = RelationRelationId, objectId = ?relid, objectSubId = 0\<rparr>,
                \<lparr>classId = RelationRelationId, objectId = rd_id rel, objectSubId = 0\<rparr>,
                DEPENDENCY_INTERNAL)])"
      unfolding c'
      by (simp_all add: CommandCounterIncrement_def recordDependencyOn_def
          caql_update_current_def heap_inplace_update_def)
    from Some res relid idx ty(2,3) show ?thesis
      unfolding fields c4
      by (intro exI [of _ ?relid] exI [of _ typid] exI [of _ ?idx])
         (simp add: toast_heap_call_def)
  qed
qed

lemma create_toast_table_cases:
  "create_toast_table I G rel toastOid toastIndexOid comptypeOid is_part_child c = (Inr False, c)
   \<or> create_toast_table I G rel toastOid toastIndexOid comptypeOid is_part_child c
       = (Inl ERRCODE_OBJECT_NOT_IN_PREREQUISITE_STATE, c)
   \<or> create_toast_table I G rel toastOid toastIndexOid comptypeOid is_part_child c
       = create_toast_objects I G rel toastOid toastIndexOid comptypeOid is_part_child c"
  by (simp add: create_toast_table_def)

lemma create_toast_table_True:
  assumes "create_toast_table I G rel toastOid toastIndexOid comptypeOid is_part_child c = (Inr True, c')"
  shows "create_toast_objects I G rel toastOid toastIndexOid comptypeOid is_part_child c = (Inr True, c')"
  using assms by (simp add: create_toast_table_def split: if_splits)

lemmas run_defs =
  create_toast_table_def create_toast_objects_def heap_create_with_catalog_def index_create_def
  assign_oid_def GetNewOid_def CommandCounterIncrement_def UnlockRelationOid_def
  recordDependencyOn_def caql_getfirst_def caql_update_current_def heap_inplace_update_def
  toast_heap_call_def toast_index_call_def
  example_catalog_def normal_mode_def bootstrap_mode_def upgrade_mode_def InvalidOid_def Let_def


subsection \<open>The early returns\<close>

text \<open>
  Claim C10. In upgrade mode a call without a pre-assigned toast relation identifier
  returns false and leaves the catalog state as it was, whatever the owner is.
\<close>

theorem upgrade_without_oid_is_noop:
  assumes "gp_upgrade_mode G"
  shows "create_toast_table I G rel InvalidOid toastIndexOid comptypeOid is_part_child c
           = (Inr False, c)"
  using assms by (simp add: create_toast_table_def)

text \<open>
  The theorem at a table that needs a toast table and has none: in upgrade mode nothing
  is created.
\<close>

theorem upgrade_without_oid_is_noop_witness:
  "gp_upgrade_mode upgrade_mode \<and>
   RelationNeedsToastTable example_installation
     (example_rel False 0 [varlena_att (CHR ''x'') (- 1)]) \<and>
   reltoastrelid (rd_rel (example_rel False 0 [varlena_att (CHR ''x'') (- 1)])) = InvalidOid \<and>
   create_toast_table example_installation upgrade_mode
     (example_rel False 0 [varlena_att (CHR ''x'') (- 1)]) InvalidOid 0 None False
     (example_catalog False 0 [varlena_att (CHR ''x'') (- 1)])
   = (Inr False, example_catalog False 0 [varlena_att (CHR ''x'') (- 1)])"
proof -
  have g: "gp_upgrade_mode upgrade_mode"
    by (simp add: upgrade_mode_def)
  have "RelationNeedsToastTable example_installation
     (example_rel False 0 [varlena_att (CHR ''x'') (- 1)])"
    by (simp add: example_defs eval_defs)
  moreover have "reltoastrelid (rd_rel (example_rel False 0 [varlena_att (CHR ''x'') (- 1)])) = InvalidOid"
    by (simp add: example_defs InvalidOid_def)
  ultimately show ?thesis
    using g upgrade_without_oid_is_noop [OF g] by simp
qed

text \<open>
  Claim C3, as amended. For a shared owner, outside bootstrap processing mode and outside
  upgrade mode, \<open>create_toast_table\<close> never changes the catalog state. It returns false
  when the owner already references a toast relation or does not need one, and raises
  the shared-relation error otherwise.
\<close>

theorem shared_relation_guard:
  assumes "relisshared (rd_rel rel)"
    and "\<not> IsBootstrapProcessingMode G" and "\<not> gp_upgrade_mode G"
  shows "create_toast_table I G rel toastOid toastIndexOid comptypeOid is_part_child c =
           (if reltoastrelid (rd_rel rel) \<noteq> InvalidOid \<or> \<not> RelationNeedsToastTable I rel
            then (Inr False, c)
            else (Inl ERRCODE_OBJECT_NOT_IN_PREREQUISITE_STATE, c))"
  using assms by (simp add: create_toast_table_def)

text \<open>
  The theorem at a shared table that needs a toast table and has none: the error, and the
  catalog as before.
\<close>

theorem shared_relation_guard_witness:
  "create_toast_table example_installation normal_mode
     (example_rel True 0 [varlena_att (CHR ''x'') (- 1)]) 0 0 None False
     (example_catalog True 0 [varlena_att (CHR ''x'') (- 1)])
   = (Inl ERRCODE_OBJECT_NOT_IN_PREREQUISITE_STATE,
      example_catalog True 0 [varlena_att (CHR ''x'') (- 1)])"
proof -
  have "RelationNeedsToastTable example_installation
     (example_rel True 0 [varlena_att (CHR ''x'') (- 1)])"
    by (simp add: example_defs eval_defs)
  moreover have "reltoastrelid (rd_rel (example_rel True 0 [varlena_att (CHR ''x'') (- 1)])) = InvalidOid"
    by (simp add: example_defs InvalidOid_def)
  moreover have "relisshared (rd_rel (example_rel True 0 [varlena_att (CHR ''x'') (- 1)]))"
    by (simp add: example_defs)
  ultimately show ?thesis
    using shared_relation_guard [of "example_rel True 0 [varlena_att (CHR ''x'') (- 1)]"
        normal_mode example_installation 0 0 None False
        "example_catalog True 0 [varlena_att (CHR ''x'') (- 1)]"]
    by (simp add: normal_mode_def)
qed

text \<open>
  Claim C3 as stated fails: a shared table with a single integer column does not need a
  toast table, and the call returns false without an error.
\<close>

theorem shared_relation_without_error:
  "relisshared (rd_rel (example_rel True 0 [int4_att])) \<and>
   \<not> IsBootstrapProcessingMode normal_mode \<and> \<not> gp_upgrade_mode normal_mode \<and>
   fst (create_toast_table example_installation normal_mode
         (example_rel True 0 [int4_att]) 0 0 None False (example_catalog True 0 [int4_att]))
   = Inr False"
  by (simp add: create_toast_table_def normal_mode_def example_defs eval_defs InvalidOid_def)

subsection \<open>Idempotence\<close>

lemma heap_open_after_update:
  assumes "map_of (pg_class c) relOid = Some reltup"
    and "pg_class c' = replace_row relOid tup (pg_class c)"
  shows "\<exists>rel'. heap_open c' relOid = Some rel' \<and> rd_rel rel' = tup"
  using map_of_replace_row [OF assms(1), of tup] assms(2)
  by (simp add: heap_open_def)

text \<open>
  Claim C2. Outside upgrade mode, \<open>create_toast_table\<close> on an owner that already
  references a toast relation returns false and leaves the catalog state as it was: no
  error, no relation, no index, no row changed. After a call that created a toast
  relation, the owner reopened from the catalog references it, so every further call
  is such a no-op.
\<close>

theorem provisioning_is_idempotent:
  assumes "\<not> gp_upgrade_mode G"
  shows "(reltoastrelid (rd_rel rel) \<noteq> InvalidOid \<longrightarrow>
            create_toast_table I G rel toastOid toastIndexOid comptypeOid is_part_child c
              = (Inr False, c))
       \<and> (create_toast_table I G rel toastOid toastIndexOid comptypeOid is_part_child c
              = (Inr True, c') \<longrightarrow>
            (\<exists>rel'. heap_open c' (rd_id rel) = Some rel' \<and>
               reltoastrelid (rd_rel rel') \<noteq> InvalidOid \<and>
               (\<forall>toastOid' toastIndexOid' comptypeOid' is_part_child'.
                  create_toast_table I G rel' toastOid' toastIndexOid' comptypeOid' is_part_child' c'
                    = (Inr False, c'))))"
proof (intro conjI impI)
  assume "reltoastrelid (rd_rel rel) \<noteq> InvalidOid"
  with assms
  show "create_toast_table I G rel toastOid toastIndexOid comptypeOid is_part_child c = (Inr False, c)"
    by (simp add: create_toast_table_def)
next
  assume run: "create_toast_table I G rel toastOid toastIndexOid comptypeOid is_part_child c
                 = (Inr True, c')"
  from create_toast_objects_effect [OF create_toast_table_True [OF run]]
  obtain toast_relid where v: "toast_relid \<noteq> InvalidOid"
    and e: "case map_of (pg_class c) (rd_id rel) of
              None \<Rightarrow> Inr True = Inl (cache_lookup_failed (rd_id rel)) \<and>
                       pg_class c' = pg_class c \<and> pg_depend c' = pg_depend c
            | Some reltup \<Rightarrow> (Inr True :: error + bool) = Inr True \<and>
                pg_class c' = replace_row (rd_id rel) (reltup\<lparr>reltoastrelid := toast_relid\<rparr>)
                                (pg_class c) \<and>
                pg_depend c' =
                  (if IsBootstrapProcessingMode G then pg_depend c
                   else pg_depend c @
                     [(\<lparr>classId = RelationRelationId, objectId = toast_relid, objectSubId = 0\<rparr>,
                       \<lparr>classId = RelationRelationId, objectId = rd_id rel, objectSubId = 0\<rparr>,
                       DEPENDENCY_INTERNAL)])"
    by blast
  from e obtain reltup where r: "map_of (pg_class c) (rd_id rel) = Some reltup"
    and u: "pg_class c' = replace_row (rd_id rel) (reltup\<lparr>reltoastrelid := toast_relid\<rparr>) (pg_class c)"
    by (cases "map_of (pg_class c) (rd_id rel)") simp_all
  from heap_open_after_update [OF r u]
  obtain rel' where o: "heap_open c' (rd_id rel) = Some rel'"
    and t: "rd_rel rel' = reltup\<lparr>reltoastrelid := toast_relid\<rparr>"
    by blast
  from t v have "reltoastrelid (rd_rel rel') \<noteq> InvalidOid"
    by simp
  with o assms
  show "\<exists>rel'. heap_open c' (rd_id rel) = Some rel' \<and>
               reltoastrelid (rd_rel rel') \<noteq> InvalidOid \<and>
               (\<forall>toastOid' toastIndexOid' comptypeOid' is_part_child'.
                  create_toast_table I G rel' toastOid' toastIndexOid' comptypeOid' is_part_child' c'
                    = (Inr False, c'))"
    by (simp add: create_toast_table_def)
qed

text \<open>
  The theorem at a table that needs a toast table: the first call creates one relation
  and one index, the second call on the reopened table returns false and changes
  nothing.
\<close>

theorem provisioning_is_idempotent_witness:
  "fst (create_toast_table example_installation normal_mode
         (example_rel False 0 [varlena_att (CHR ''x'') (- 1)]) 0 0 None False
         (example_catalog False 0 [varlena_att (CHR ''x'') (- 1)])) = Inr True \<and>
   heap_open (snd (create_toast_table example_installation normal_mode
         (example_rel False 0 [varlena_att (CHR ''x'') (- 1)]) 0 0 None False
         (example_catalog False 0 [varlena_att (CHR ''x'') (- 1)]))) 16384
     = Some (example_rel False 16385 [varlena_att (CHR ''x'') (- 1)]) \<and>
   create_toast_table example_installation normal_mode
     (example_rel False 16385 [varlena_att (CHR ''x'') (- 1)]) 0 0 None False
     (snd (create_toast_table example_installation normal_mode
         (example_rel False 0 [varlena_att (CHR ''x'') (- 1)]) 0 0 None False
         (example_catalog False 0 [varlena_att (CHR ''x'') (- 1)])))
   = (Inr False,
      snd (create_toast_table example_installation normal_mode
         (example_rel False 0 [varlena_att (CHR ''x'') (- 1)]) 0 0 None False
         (example_catalog False 0 [varlena_att (CHR ''x'') (- 1)])))"
proof -
  let ?rel = "example_rel False 0 [varlena_att (CHR ''x'') (- 1)]"
  let ?c = "example_catalog False 0 [varlena_att (CHR ''x'') (- 1)]"
  let ?run = "create_toast_table example_installation normal_mode ?rel 0 0 None False ?c"
  have g: "\<not> gp_upgrade_mode normal_mode"
    by (simp add: normal_mode_def)
  have f: "fst ?run = Inr True"
    by (simp add: run_defs example_defs eval_defs)
  then have run: "?run = (Inr True, snd ?run)"
    by (simp add: prod_eq_iff)
  have o: "heap_open (snd ?run) 16384 = Some (example_rel False 16385 [varlena_att (CHR ''x'') (- 1)])"
    by (simp add: run_defs example_defs eval_defs heap_open_def)
  have id: "rd_id ?rel = 16384"
    by (simp add: example_rel_def)
  from provisioning_is_idempotent [OF g, of ?rel example_installation 0 0 None False ?c "snd ?run",
      THEN conjunct2, rule_format, OF run]
  obtain rel' where "heap_open (snd ?run) (rd_id ?rel) = Some rel'"
    and "\<forall>toastOid' toastIndexOid' comptypeOid' is_part_child'.
           create_toast_table example_installation normal_mode rel' toastOid' toastIndexOid'
             comptypeOid' is_part_child' (snd ?run) = (Inr False, snd ?run)"
    by blast
  with o id have "create_toast_table example_installation normal_mode
     (example_rel False 16385 [varlena_att (CHR ''x'') (- 1)]) 0 0 None False (snd ?run)
     = (Inr False, snd ?run)"
    by simp
  with f o show ?thesis by simp
qed

subsection \<open>The dependency edge\<close>

text \<open>
  Claim C7. When \<open>create_toast_table\<close> succeeds outside bootstrap processing mode, it
  has recorded one dependency edge of type internal from the toast relation it created
  to the owner; in bootstrap processing mode, and only then, it has recorded none.
\<close>

theorem dependency_edge_recorded:
  assumes "create_toast_table I G rel toastOid toastIndexOid comptypeOid is_part_child c = (Inr True, c')"
  shows "\<exists>toast_relid typid.
           heap_created c' = heap_created c
             @ [(toast_heap_call I rel toastOid comptypeOid, toast_relid, typid)] \<and>
           pg_depend c' =
             (if IsBootstrapProcessingMode G then pg_depend c
              else pg_depend c @
                [(\<lparr>classId = RelationRelationId, objectId = toast_relid, objectSubId = 0\<rparr>,
                  \<lparr>classId = RelationRelationId, objectId = rd_id rel, objectSubId = 0\<rparr>,
                  DEPENDENCY_INTERNAL)])"
proof -
  from create_toast_objects_effect [OF create_toast_table_True [OF assms]]
  obtain toast_relid typid where
    h: "heap_created c' = heap_created c
          @ [(toast_heap_call I rel toastOid comptypeOid, toast_relid, typid)]"
    and e: "case map_of (pg_class c) (rd_id rel) of
              None \<Rightarrow> Inr True = Inl (cache_lookup_failed (rd_id rel)) \<and>
                       pg_class c' = pg_class c \<and> pg_depend c' = pg_depend c
            | Some reltup \<Rightarrow> (Inr True :: error + bool) = Inr True \<and>
                pg_class c' = replace_row (rd_id rel) (reltup\<lparr>reltoastrelid := toast_relid\<rparr>)
                                (pg_class c) \<and>
                pg_depend c' =
                  (if IsBootstrapProcessingMode G then pg_depend c
                   else pg_depend c @
                     [(\<lparr>classId = RelationRelationId, objectId = toast_relid, objectSubId = 0\<rparr>,
                       \<lparr>classId = RelationRelationId, objectId = rd_id rel, objectSubId = 0\<rparr>,
                       DEPENDENCY_INTERNAL)])"
    by blast
  from e have "pg_depend c' =
                  (if IsBootstrapProcessingMode G then pg_depend c
                   else pg_depend c @
                     [(\<lparr>classId = RelationRelationId, objectId = toast_relid, objectSubId = 0\<rparr>,
                       \<lparr>classId = RelationRelationId, objectId = rd_id rel, objectSubId = 0\<rparr>,
                       DEPENDENCY_INTERNAL)])"
    by (simp split: option.splits)
  with h show ?thesis by blast
qed

text \<open>
  The theorem at a table that needs a toast table: in normal mode the edge from relation
  16385 to relation 16384 is recorded, in bootstrap processing mode nothing is.
\<close>

theorem dependency_edge_recorded_witness:
  "fst (create_toast_table example_installation normal_mode
         (example_rel False 0 [varlena_att (CHR ''x'') (- 1)]) 0 0 None False
         (example_catalog False 0 [varlena_att (CHR ''x'') (- 1)])) = Inr True \<and>
   pg_depend (snd (create_toast_table example_installation normal_mode
         (example_rel False 0 [varlena_att (CHR ''x'') (- 1)]) 0 0 None False
         (example_catalog False 0 [varlena_att (CHR ''x'') (- 1)]))) =
     [(\<lparr>classId = RelationRelationId, objectId = 16385, objectSubId = 0\<rparr>,
       \<lparr>classId = RelationRelationId, objectId = 16384, objectSubId = 0\<rparr>,
       DEPENDENCY_INTERNAL)] \<and>
   fst (create_toast_table example_installation bootstrap_mode
         (example_rel False 0 [varlena_att (CHR ''x'') (- 1)]) 0 0 None False
         (example_catalog False 0 [varlena_att (CHR ''x'') (- 1)])) = Inr True \<and>
   pg_depend (snd (create_toast_table example_installation bootstrap_mode
         (example_rel False 0 [varlena_att (CHR ''x'') (- 1)]) 0 0 None False
         (example_catalog False 0 [varlena_att (CHR ''x'') (- 1)]))) = []"
proof -
  let ?rel = "example_rel False 0 [varlena_att (CHR ''x'') (- 1)]"
  let ?c = "example_catalog False 0 [varlena_att (CHR ''x'') (- 1)]"
  let ?n = "create_toast_table example_installation normal_mode ?rel 0 0 None False ?c"
  let ?b = "create_toast_table example_installation bootstrap_mode ?rel 0 0 None False ?c"
  have n: "fst ?n = Inr True"
    by (simp add: run_defs example_defs eval_defs)
  have b: "fst ?b = Inr True"
    by (simp add: run_defs example_defs eval_defs)
  have hn: "heap_created (snd ?n) =
      [(toast_heap_call example_installation ?rel 0 None, 16385, 16386)]"
    by (simp add: run_defs example_defs eval_defs)
  from n have "?n = (Inr True, snd ?n)"
    by (simp add: prod_eq_iff)
  from dependency_edge_recorded [OF this] hn
  have dn: "pg_depend (snd ?n) =
     [(\<lparr>classId = RelationRelationId, objectId = 16385, objectSubId = 0\<rparr>,
       \<lparr>classId = RelationRelationId, objectId = 16384, objectSubId = 0\<rparr>,
       DEPENDENCY_INTERNAL)]"
    by (auto simp: normal_mode_def example_catalog_def example_rel_def)
  from b have "?b = (Inr True, snd ?b)"
    by (simp add: prod_eq_iff)
  from dependency_edge_recorded [OF this]
  have db: "pg_depend (snd ?b) = []"
    by (auto simp: bootstrap_mode_def example_catalog_def)
  from n b dn db show ?thesis by simp
qed

subsection \<open>The toast relation and its index\<close>

lemma toast_tupdesc_eq:
  "toast_tupdesc I =
     [\<lparr>attname = ''chunk_id'', atttypid = OIDOID, attlen = fst (type_of_oid I OIDOID),
       atttypmod = - 1, attndims = 0, attstorage = CHR ''p'',
       attalign = fst (snd (type_of_oid I OIDOID)), attisdropped = False\<rparr>,
      \<lparr>attname = ''chunk_seq'', atttypid = INT4OID, attlen = fst (type_of_oid I INT4OID),
       atttypmod = - 1, attndims = 0, attstorage = CHR ''p'',
       attalign = fst (snd (type_of_oid I INT4OID)), attisdropped = False\<rparr>,
      \<lparr>attname = ''chunk_data'', atttypid = BYTEAOID, attlen = fst (type_of_oid I BYTEAOID),
       atttypmod = - 1, attndims = 0, attstorage = CHR ''p'',
       attalign = fst (snd (type_of_oid I BYTEAOID)), attisdropped = False\<rparr>]"
  by (simp add: toast_tupdesc_def CreateTemplateTupleDesc_def TupleDescInitEntry_def
      numeral_3_eq_3 case_prod_beta Let_def)

lemma plain_attributes_not_toastable:
  assumes "\<forall>a\<in>set (rd_att r). attstorage a = CHR ''p''"
  shows "\<not> RelationNeedsToastTable I r"
  using assms by (auto simp: RelationNeedsToastTable_unfold toastable_att_def)

lemma create_toast_table_effect:
  assumes "create_toast_table I G rel toastOid toastIndexOid comptypeOid is_part_child c = (res, c')"
  shows "res \<noteq> Inr True \<and> c' = c
       \<or> (\<exists>toast_relid typid toast_idxid.
            toast_relid \<noteq> InvalidOid \<and> (toastOid \<noteq> InvalidOid \<longrightarrow> toast_relid = toastOid) \<and>
            typid \<noteq> InvalidOid \<and>
            (\<forall>t. comptypeOid = Some t \<and> t \<noteq> InvalidOid \<longrightarrow> typid = t) \<and>
            toast_idxid \<noteq> InvalidOid \<and>
            (toastIndexOid \<noteq> InvalidOid \<longrightarrow> toast_idxid = toastIndexOid) \<and>
            heap_created c' = heap_created c
               @ [(toast_heap_call I rel toastOid comptypeOid, toast_relid, typid)] \<and>
            index_created c' = index_created c
               @ [(toast_index_call I rel toast_relid toastIndexOid, toast_idxid)])"
proof -
  from create_toast_table_cases [of I G rel toastOid toastIndexOid comptypeOid is_part_child c]
  consider "res = Inr False" "c' = c"
    | "res = Inl ERRCODE_OBJECT_NOT_IN_PREREQUISITE_STATE" "c' = c"
    | "create_toast_objects I G rel toastOid toastIndexOid comptypeOid is_part_child c = (res, c')"
    using assms by auto
  then show ?thesis
  proof cases
    case 1
    then show ?thesis by simp
  next
    case 2
    then show ?thesis by simp
  next
    case 3
    from create_toast_objects_effect [OF 3] show ?thesis
      by (intro disjI2) blast
  qed
qed

text \<open>
  Claim C5. Every index that \<open>create_toast_table\<close> creates (exactly one when it
  succeeds) is asked for as a unique btree index, neither built concurrently nor with its
  build skipped, on the two key columns 1 and 2 of the toast relation created by the same
  call, which are \<open>chunk_id\<close> (the value identifier) and \<open>chunk_seq\<close>, with no
  expression and no predicate. The identifier asked for is the caller's
  \<open>toastIndexOid\<close>, and the index gets that identifier when it is valid.
\<close>

theorem toast_index_shape:
  assumes "create_toast_table I G rel toastOid toastIndexOid comptypeOid is_part_child c = (res, c')"
  shows "\<exists>new. index_created c' = index_created c @ new \<and>
           (res = Inr True \<longrightarrow> length new = 1) \<and>
           (\<forall>(call, idxid) \<in> set new.
              ii_Unique (ix_indexInfo call) \<and>
              \<not> ii_Concurrent (ix_indexInfo call) \<and> \<not> ix_concurrent call \<and>
              \<not> ix_skip_build call \<and>
              ix_accessMethodObjectId call = BTREE_AM_OID \<and>
              ix_classObjectId call = [OID_BTREE_OPS_OID, INT4_BTREE_OPS_OID] \<and>
              ii_NumIndexAttrs (ix_indexInfo call) = 2 \<and>
              ii_KeyAttrNumbers (ix_indexInfo call) = [1, 2] \<and>
              ii_Expressions (ix_indexInfo call) = [] \<and>
              ii_Predicate (ix_indexInfo call) = [] \<and>
              (\<exists>typid. (toast_heap_call I rel toastOid comptypeOid, ix_heapRelationId call, typid)
                         \<in> set (heap_created c')) \<and>
              map attname (take 2 (hc_tupdesc (toast_heap_call I rel toastOid comptypeOid)))
                = [''chunk_id'', ''chunk_seq''] \<and>
              ix_indexRelationId call = toastIndexOid \<and>
              (toastIndexOid \<noteq> InvalidOid \<longrightarrow> idxid = toastIndexOid))"
proof -
  have names: "map attname (take 2 (hc_tupdesc (toast_heap_call I rel toastOid comptypeOid)))
                = [''chunk_id'', ''chunk_seq'']"
    by (simp add: toast_heap_call_def toast_tupdesc_eq)
  from create_toast_table_effect [OF assms]
  consider (noop) "res \<noteq> Inr True" "c' = c"
    | (created) toast_relid typid toast_idxid where
        "toastIndexOid \<noteq> InvalidOid \<longrightarrow> toast_idxid = toastIndexOid"
        "heap_created c' = heap_created c
           @ [(toast_heap_call I rel toastOid comptypeOid, toast_relid, typid)]"
        "index_created c' = index_created c
           @ [(toast_index_call I rel toast_relid toastIndexOid, toast_idxid)]"
    by blast
  then show ?thesis
  proof cases
    case noop
    then show ?thesis
      by (intro exI [of _ "[]"]) simp
  next
    case created
    show ?thesis
      using created names
      by (intro exI [of _ "[(toast_index_call I rel toast_relid toastIndexOid, toast_idxid)]"])
         (auto simp: toast_index_call_def toast_indexInfo_def)
  qed
qed

text \<open>
  Claim C6. Every relation that \<open>create_toast_table\<close> creates (exactly one when it
  succeeds) is asked for as a toast relation with exactly three visible columns, in this
  order: \<open>chunk_id\<close> (the value identifier) of type \<open>oid\<close>, \<open>chunk_seq\<close> of type \<open>int4\<close>
  and \<open>chunk_data\<close> of type \<open>bytea\<close>, each with storage class plain. A relation with
  that descriptor never needs a toast table, so \<open>create_toast_table\<close> on it returns
  false and changes nothing, in every installation, mode and catalog state.
\<close>

theorem toast_relation_shape:
  assumes "create_toast_table I G rel toastOid toastIndexOid comptypeOid is_part_child c = (res, c')"
  shows "\<exists>new. heap_created c' = heap_created c @ new \<and>
           (res = Inr True \<longrightarrow> length new = 1) \<and>
           (\<forall>(call, relid, typid) \<in> set new.
              hc_relkind call = RELKIND_TOASTVALUE \<and>
              map attname (hc_tupdesc call) = [''chunk_id'', ''chunk_seq'', ''chunk_data''] \<and>
              map atttypid (hc_tupdesc call) = [OIDOID, INT4OID, BYTEAOID] \<and>
              map attstorage (hc_tupdesc call) = [CHR ''p'', CHR ''p'', CHR ''p''] \<and>
              map attisdropped (hc_tupdesc call) = [False, False, False] \<and>
              (\<forall>I' G' r toastOid' toastIndexOid' comptypeOid' is_part_child' c''.
                 rd_att r = hc_tupdesc call \<longrightarrow>
                   \<not> RelationNeedsToastTable I' r \<and>
                   create_toast_table I' G' r toastOid' toastIndexOid' comptypeOid' is_part_child' c''
                     = (Inr False, c'')))"
proof -
  let ?call = "toast_heap_call I rel toastOid comptypeOid"
  have desc: "hc_tupdesc ?call = toast_tupdesc I" "hc_relkind ?call = RELKIND_TOASTVALUE"
    by (simp_all add: toast_heap_call_def)
  have never: "\<not> RelationNeedsToastTable I' r \<and>
      create_toast_table I' G' r toastOid' toastIndexOid' comptypeOid' is_part_child' c''
        = (Inr False, c'')"
    if "rd_att r = hc_tupdesc ?call"
    for I' G' r toastOid' toastIndexOid' comptypeOid' is_part_child' c''
  proof -
    from that have "\<forall>a\<in>set (rd_att r). attstorage a = CHR ''p''"
      by (simp add: desc toast_tupdesc_eq)
    then have "\<not> RelationNeedsToastTable I' r"
      by (rule plain_attributes_not_toastable)
    then show ?thesis
      by (simp add: create_toast_table_def)
  qed
  from create_toast_table_effect [OF assms]
  consider (noop) "res \<noteq> Inr True" "c' = c"
    | (created) toast_relid typid where
        "heap_created c' = heap_created c @ [(?call, toast_relid, typid)]"
    by blast
  then show ?thesis
  proof cases
    case noop
    then show ?thesis
      by (intro exI [of _ "[]"]) simp
  next
    case created
    show ?thesis
      using created never
      by (intro exI [of _ "[(?call, toast_relid, typid)]"])
         (simp add: desc toast_tupdesc_eq)
  qed
qed

text \<open>
  The theorem at a bootstrap call with the pre-assigned identifiers 2902 and 2903: one
  index, unique, btree, on columns 1 and 2 of relation 2902, with identifier 2903.
\<close>

theorem toast_index_shape_witness:
  "fst (create_toast_table example_installation bootstrap_mode
         (example_rel False 0 [varlena_att (CHR ''x'') (- 1)]) 2902 2903 (Some 6436) False
         (example_catalog False 0 [varlena_att (CHR ''x'') (- 1)])) = Inr True \<and>
   index_created (snd (create_toast_table example_installation bootstrap_mode
         (example_rel False 0 [varlena_att (CHR ''x'') (- 1)]) 2902 2903 (Some 6436) False
         (example_catalog False 0 [varlena_att (CHR ''x'') (- 1)])))
     = [(toast_index_call example_installation
           (example_rel False 0 [varlena_att (CHR ''x'') (- 1)]) 2902 2903, 2903)] \<and>
   ii_Unique (ix_indexInfo (toast_index_call example_installation
           (example_rel False 0 [varlena_att (CHR ''x'') (- 1)]) 2902 2903)) \<and>
   \<not> ii_Concurrent (ix_indexInfo (toast_index_call example_installation
           (example_rel False 0 [varlena_att (CHR ''x'') (- 1)]) 2902 2903)) \<and>
   ix_accessMethodObjectId (toast_index_call example_installation
           (example_rel False 0 [varlena_att (CHR ''x'') (- 1)]) 2902 2903) = BTREE_AM_OID \<and>
   ii_KeyAttrNumbers (ix_indexInfo (toast_index_call example_installation
           (example_rel False 0 [varlena_att (CHR ''x'') (- 1)]) 2902 2903)) = [1, 2]"
proof -
  let ?rel = "example_rel False 0 [varlena_att (CHR ''x'') (- 1)]"
  let ?c = "example_catalog False 0 [varlena_att (CHR ''x'') (- 1)]"
  let ?run = "create_toast_table example_installation bootstrap_mode ?rel 2902 2903 (Some 6436) False ?c"
  let ?call = "toast_index_call example_installation ?rel 2902 2903"
  have f: "fst ?run = Inr True"
    by (simp add: run_defs example_defs eval_defs)
  then have run: "?run = (Inr True, snd ?run)"
    by (simp add: prod_eq_iff)
  have ic: "index_created (snd ?run) = [(?call, 2903)]"
    by (simp add: run_defs example_defs eval_defs)
  have c0: "index_created ?c = []"
    by (simp add: example_catalog_def)
  from toast_index_shape [OF run] obtain new where
    n: "index_created (snd ?run) = index_created ?c @ new"
    and p: "\<forall>(call, idxid) \<in> set new.
              ii_Unique (ix_indexInfo call) \<and>
              \<not> ii_Concurrent (ix_indexInfo call) \<and> \<not> ix_concurrent call \<and>
              \<not> ix_skip_build call \<and>
              ix_accessMethodObjectId call = BTREE_AM_OID \<and>
              ix_classObjectId call = [OID_BTREE_OPS_OID, INT4_BTREE_OPS_OID] \<and>
              ii_NumIndexAttrs (ix_indexInfo call) = 2 \<and>
              ii_KeyAttrNumbers (ix_indexInfo call) = [1, 2] \<and>
              ii_Expressions (ix_indexInfo call) = [] \<and>
              ii_Predicate (ix_indexInfo call) = [] \<and>
              (\<exists>typid. (toast_heap_call example_installation ?rel 2902 (Some 6436),
                          ix_heapRelationId call, typid) \<in> set (heap_created (snd ?run))) \<and>
              map attname (take 2 (hc_tupdesc (toast_heap_call example_installation ?rel 2902 (Some 6436))))
                = [''chunk_id'', ''chunk_seq''] \<and>
              ix_indexRelationId call = 2903 \<and>
              (2903 \<noteq> InvalidOid \<longrightarrow> idxid = 2903)"
    by blast
  from n ic c0 have "new = [(?call, 2903)]"
    by simp
  with p have "ii_Unique (ix_indexInfo ?call)" "\<not> ii_Concurrent (ix_indexInfo ?call)"
    "ix_accessMethodObjectId ?call = BTREE_AM_OID" "ii_KeyAttrNumbers (ix_indexInfo ?call) = [1, 2]"
    by simp_all
  with f ic show ?thesis by simp
qed

text \<open>
  The theorem at the same call: one relation, with identifier 2902 and row type 6436,
  whose three columns are plain, and which does not need a toast table itself.
\<close>

theorem toast_relation_shape_witness:
  "fst (create_toast_table example_installation bootstrap_mode
         (example_rel False 0 [varlena_att (CHR ''x'') (- 1)]) 2902 2903 (Some 6436) False
         (example_catalog False 0 [varlena_att (CHR ''x'') (- 1)])) = Inr True \<and>
   heap_created (snd (create_toast_table example_installation bootstrap_mode
         (example_rel False 0 [varlena_att (CHR ''x'') (- 1)]) 2902 2903 (Some 6436) False
         (example_catalog False 0 [varlena_att (CHR ''x'') (- 1)])))
     = [(toast_heap_call example_installation
           (example_rel False 0 [varlena_att (CHR ''x'') (- 1)]) 2902 (Some 6436), 2902, 6436)] \<and>
   map attname (hc_tupdesc (toast_heap_call example_installation
           (example_rel False 0 [varlena_att (CHR ''x'') (- 1)]) 2902 (Some 6436)))
     = [''chunk_id'', ''chunk_seq'', ''chunk_data''] \<and>
   map attstorage (hc_tupdesc (toast_heap_call example_installation
           (example_rel False 0 [varlena_att (CHR ''x'') (- 1)]) 2902 (Some 6436)))
     = [CHR ''p'', CHR ''p'', CHR ''p''] \<and>
   \<not> RelationNeedsToastTable example_installation
       (example_rel False 0 (hc_tupdesc (toast_heap_call example_installation
           (example_rel False 0 [varlena_att (CHR ''x'') (- 1)]) 2902 (Some 6436))))"
proof -
  let ?rel = "example_rel False 0 [varlena_att (CHR ''x'') (- 1)]"
  let ?c = "example_catalog False 0 [varlena_att (CHR ''x'') (- 1)]"
  let ?run = "create_toast_table example_installation bootstrap_mode ?rel 2902 2903 (Some 6436) False ?c"
  let ?call = "toast_heap_call example_installation ?rel 2902 (Some 6436)"
  have f: "fst ?run = Inr True"
    by (simp add: run_defs example_defs eval_defs)
  then have run: "?run = (Inr True, snd ?run)"
    by (simp add: prod_eq_iff)
  have hc: "heap_created (snd ?run) = [(?call, 2902, 6436)]"
    by (simp add: run_defs example_defs eval_defs)
  have c0: "heap_created ?c = []"
    by (simp add: example_catalog_def)
  from toast_relation_shape [OF run] obtain new where
    n: "heap_created (snd ?run) = heap_created ?c @ new"
    and p: "\<forall>(call, relid, typid) \<in> set new.
              hc_relkind call = RELKIND_TOASTVALUE \<and>
              map attname (hc_tupdesc call) = [''chunk_id'', ''chunk_seq'', ''chunk_data''] \<and>
              map atttypid (hc_tupdesc call) = [OIDOID, INT4OID, BYTEAOID] \<and>
              map attstorage (hc_tupdesc call) = [CHR ''p'', CHR ''p'', CHR ''p''] \<and>
              map attisdropped (hc_tupdesc call) = [False, False, False] \<and>
              (\<forall>I' G' r toastOid' toastIndexOid' comptypeOid' is_part_child' c''.
                 rd_att r = hc_tupdesc call \<longrightarrow>
                   \<not> RelationNeedsToastTable I' r \<and>
                   create_toast_table I' G' r toastOid' toastIndexOid' comptypeOid' is_part_child' c''
                     = (Inr False, c''))"
    by blast
  from n hc c0 have "new = [(?call, 2902, 6436)]"
    by simp
  with p have a: "map attname (hc_tupdesc ?call) = [''chunk_id'', ''chunk_seq'', ''chunk_data'']"
    and b: "map attstorage (hc_tupdesc ?call) = [CHR ''p'', CHR ''p'', CHR ''p'']"
    and d: "\<forall>I' G' r toastOid' toastIndexOid' comptypeOid' is_part_child' c''.
                 rd_att r = hc_tupdesc ?call \<longrightarrow>
                   \<not> RelationNeedsToastTable I' r \<and>
                   create_toast_table I' G' r toastOid' toastIndexOid' comptypeOid' is_part_child' c''
                     = (Inr False, c'')"
    by simp_all
  have "rd_att (example_rel False 0 (hc_tupdesc ?call)) = hc_tupdesc ?call"
    by (simp add: example_rel_def)
  with d have "\<not> RelationNeedsToastTable example_installation (example_rel False 0 (hc_tupdesc ?call))"
    by blast
  with f hc a b show ?thesis by simp
qed

subsection \<open>The bootstrap entry point\<close>

lemma bootstrap_typid_registered:
  assumes "distinct (map fst (bootstrap_entries T))"
    and "(k, t) \<in> set (bootstrap_entries T)"
  shows "bootstrap_typid T k = t"
  using assms by (auto simp: bootstrap_entries_def bootstrap_typid_def)

lemma bootstrap_typid_unregistered:
  assumes "k \<notin> fst ` set (bootstrap_entries T)"
  shows "bootstrap_typid T k = InvalidOid"
  using assms by (simp add: bootstrap_entries_def bootstrap_typid_def)

lemma create_toast_table_nextOid:
  assumes "toastOid \<noteq> InvalidOid" and "toastIndexOid \<noteq> InvalidOid" and "t \<noteq> InvalidOid"
  shows "nextOid (snd (create_toast_table I G rel toastOid toastIndexOid (Some t) is_part_child c))
           = nextOid c"
  using assms
  by (simp add: create_toast_table_def create_toast_objects_def heap_create_with_catalog_def
      index_create_def assign_oid_def toast_heap_call_def toast_index_call_def
      CommandCounterIncrement_def UnlockRelationOid_def recordDependencyOn_def
      caql_getfirst_def caql_update_current_def heap_inplace_update_def Let_def
      split: option.splits)

lemma BootstrapToastTable_success:
  assumes "BootstrapToastTable I G relName toastOid toastIndexOid c = (Inr (), c')"
  shows "\<exists>rel. heap_openrv c relName = Some rel \<and>
           create_toast_table I G rel toastOid toastIndexOid
             (Some (bootstrap_typid (toast_ids I) toastOid)) False c = (Inr True, c')"
  using assms
  by (auto simp: BootstrapToastTable_def Let_def split: option.splits if_splits prod.splits sum.splits)

text \<open>
  Claim C8. The \<open>switch\<close> of \<open>BootstrapToastTable\<close> is keyed by the pre-assigned toast
  relation identifier: for a registered label it yields the row type identifier
  registered with it, for any other identifier it yields \<open>InvalidOid\<close>. A successful
  call has created one relation and one index, asked for with the caller's \<open>toastOid\<close>
  and \<open>toastIndexOid\<close> and with that row type identifier; each of the three identifiers,
  when valid, is the one the object gets, and when all three are valid no fresh
  identifier is taken from the counter.
\<close>

theorem bootstrap_uses_preassigned_ids:
  assumes "BootstrapToastTable I G relName toastOid toastIndexOid c = (Inr (), c')"
  shows "\<exists>rel toast_relid typid toast_idxid.
           heap_openrv c relName = Some rel \<and>
           heap_created c' = heap_created c
             @ [(toast_heap_call I rel toastOid (Some (bootstrap_typid (toast_ids I) toastOid)),
                 toast_relid, typid)] \<and>
           index_created c' = index_created c
             @ [(toast_index_call I rel toast_relid toastIndexOid, toast_idxid)] \<and>
           (toastOid \<noteq> InvalidOid \<longrightarrow> toast_relid = toastOid) \<and>
           (toastIndexOid \<noteq> InvalidOid \<longrightarrow> toast_idxid = toastIndexOid) \<and>
           (bootstrap_typid (toast_ids I) toastOid \<noteq> InvalidOid \<longrightarrow>
              typid = bootstrap_typid (toast_ids I) toastOid) \<and>
           (toastOid \<noteq> InvalidOid \<and> toastIndexOid \<noteq> InvalidOid \<and>
            bootstrap_typid (toast_ids I) toastOid \<noteq> InvalidOid \<longrightarrow> nextOid c' = nextOid c) \<and>
           (\<forall>t. distinct (map fst (bootstrap_entries (toast_ids I))) \<and>
                (toastOid, t) \<in> set (bootstrap_entries (toast_ids I)) \<longrightarrow>
                bootstrap_typid (toast_ids I) toastOid = t) \<and>
           (toastOid \<notin> fst ` set (bootstrap_entries (toast_ids I)) \<longrightarrow>
              bootstrap_typid (toast_ids I) toastOid = InvalidOid)"
proof -
  let ?t = "bootstrap_typid (toast_ids I) toastOid"
  from BootstrapToastTable_success [OF assms] obtain rel where
    o: "heap_openrv c relName = Some rel"
    and run: "create_toast_table I G rel toastOid toastIndexOid (Some ?t) False c = (Inr True, c')"
    by blast
  from create_toast_table_effect [OF run] obtain toast_relid typid toast_idxid where
    e: "toastOid \<noteq> InvalidOid \<longrightarrow> toast_relid = toastOid"
      "\<forall>t. Some ?t = Some t \<and> t \<noteq> InvalidOid \<longrightarrow> typid = t"
      "toastIndexOid \<noteq> InvalidOid \<longrightarrow> toast_idxid = toastIndexOid"
      "heap_created c' = heap_created c @ [(toast_heap_call I rel toastOid (Some ?t), toast_relid, typid)]"
      "index_created c' = index_created c @ [(toast_index_call I rel toast_relid toastIndexOid, toast_idxid)]"
    by auto
  have n: "toastOid \<noteq> InvalidOid \<and> toastIndexOid \<noteq> InvalidOid \<and> ?t \<noteq> InvalidOid
             \<longrightarrow> nextOid c' = nextOid c"
    using create_toast_table_nextOid [of toastOid toastIndexOid ?t I G rel False c] run
    by simp
  have r: "\<forall>t. distinct (map fst (bootstrap_entries (toast_ids I))) \<and>
                (toastOid, t) \<in> set (bootstrap_entries (toast_ids I)) \<longrightarrow> ?t = t"
    using bootstrap_typid_registered [of "toast_ids I" toastOid] by blast
  have u: "toastOid \<notin> fst ` set (bootstrap_entries (toast_ids I)) \<longrightarrow> ?t = InvalidOid"
    using bootstrap_typid_unregistered [of toastOid "toast_ids I"] by blast
  from o e n r u show ?thesis
    by (intro exI [of _ rel] exI [of _ toast_relid] exI [of _ typid] exI [of _ toast_idxid]) simp
qed

text \<open>
  The theorem at a bootstrap call for the registered identifier 2902, with index
  identifier 2903: the relation, the index and the row type get 2902, 2903 and 6436 and
  the identifier counter stays at 16385. For the unregistered identifier 9999 the row
  type identifier passed on is \<open>InvalidOid\<close>.
\<close>

theorem bootstrap_uses_preassigned_ids_witness:
  "fst (BootstrapToastTable example_installation bootstrap_mode ''t'' 2902 2903
         (example_catalog False 0 [varlena_att (CHR ''x'') (- 1)])) = Inr () \<and>
   heap_created (snd (BootstrapToastTable example_installation bootstrap_mode ''t'' 2902 2903
         (example_catalog False 0 [varlena_att (CHR ''x'') (- 1)])))
     = [(toast_heap_call example_installation
           (example_rel False 0 [varlena_att (CHR ''x'') (- 1)]) 2902 (Some 6436), 2902, 6436)] \<and>
   index_created (snd (BootstrapToastTable example_installation bootstrap_mode ''t'' 2902 2903
         (example_catalog False 0 [varlena_att (CHR ''x'') (- 1)])))
     = [(toast_index_call example_installation
           (example_rel False 0 [varlena_att (CHR ''x'') (- 1)]) 2902 2903, 2903)] \<and>
   nextOid (snd (BootstrapToastTable example_installation bootstrap_mode ''t'' 2902 2903
         (example_catalog False 0 [varlena_att (CHR ''x'') (- 1)]))) = 16385 \<and>
   bootstrap_typid (toast_ids example_installation) 9999 = InvalidOid"
proof -
  let ?rel = "example_rel False 0 [varlena_att (CHR ''x'') (- 1)]"
  let ?c = "example_catalog False 0 [varlena_att (CHR ''x'') (- 1)]"
  let ?run = "BootstrapToastTable example_installation bootstrap_mode ''t'' 2902 2903 ?c"
  have ty: "bootstrap_typid (toast_ids example_installation) 2902 = 6436"
    by (simp add: bootstrap_typid_def example_installation_def example_tidycat_def)
  have op: "heap_openrv ?c ''t'' = Some ?rel"
    by (simp add: heap_openrv_def heap_open_def example_catalog_def example_class_def
        example_rel_def)
  have k: "relkind (rd_rel ?rel) = RELKIND_RELATION"
    by (simp add: example_rel_def example_class_def)
  have unfold: "?run =
      (case create_toast_table example_installation bootstrap_mode ?rel 2902 2903 (Some 6436) False ?c of
         (Inl e, c') \<Rightarrow> (Inl e, c')
       | (Inr b, c') \<Rightarrow>
           if \<not> b then (Inl (does_not_require_a_toast_table ''t''), c') else (Inr (), c'))"
    by (simp add: BootstrapToastTable_def op k ty Let_def)
  have f0: "fst (create_toast_table example_installation bootstrap_mode ?rel 2902 2903 (Some 6436) False ?c)
              = Inr True"
    by (simp add: run_defs example_defs eval_defs)
  have run_eq: "?run = (Inr (), snd (create_toast_table example_installation bootstrap_mode ?rel
                    2902 2903 (Some 6436) False ?c))"
    using f0 unfolding unfold by (simp add: case_prod_beta split: sum.splits)
  then have f: "fst ?run = Inr ()" and run: "?run = (Inr (), snd ?run)"
    by simp_all
  have hc: "heap_created (snd ?run) = [(toast_heap_call example_installation ?rel 2902 (Some 6436), 2902, 6436)]"
    unfolding run_eq by (simp add: run_defs example_defs eval_defs)
  have ic: "index_created (snd ?run) = [(toast_index_call example_installation ?rel 2902 2903, 2903)]"
    unfolding run_eq by (simp add: run_defs example_defs eval_defs)
  have un: "9999 \<notin> fst ` set (bootstrap_entries (toast_ids example_installation))"
    by (simp add: bootstrap_entries_def example_installation_def example_tidycat_def)
  from bootstrap_uses_preassigned_ids [OF run] ty
  have "nextOid (snd ?run) = nextOid ?c"
    by (auto simp: InvalidOid_def)
  then have nx: "nextOid (snd ?run) = 16385"
    by (simp add: example_catalog_def)
  from bootstrap_typid_unregistered [OF un]
  have "bootstrap_typid (toast_ids example_installation) 9999 = InvalidOid" .
  with f hc ic nx show ?thesis by simp
qed

end
